theory Spec2Isabelle
  imports Main
begin

section \<open>Values, exceptions and the environment\<close>

text \<open>
  The gateway and its tools work on parsed JSON. A JSON object is an association list
  read with \<open>map_of\<close> (a parsed dictionary has each key once). Numbers are integers;
  floating-point numbers are not modelled.
\<close>

datatype json =
    JNull
  | JBool bool
  | JNum int
  | JStr string
  | JArr "json list"
  | JObj "(string \<times> json) list"

text \<open>Python truthiness, as tested by \<^verbatim>\<open>if not x\<close>.\<close>

fun truthy :: "json \<Rightarrow> bool" where
  "truthy JNull = False"
| "truthy (JBool b) = b"
| "truthy (JNum n) = (n \<noteq> 0)"
| "truthy (JStr s) = (s \<noteq> [])"
| "truthy (JArr xs) = (xs \<noteq> [])"
| "truthy (JObj kvs) = (kvs \<noteq> [])"

text \<open>Lists and dictionaries cannot be dictionary keys (\<^verbatim>\<open>x in d\<close> raises TypeError).\<close>

fun hashable :: "json \<Rightarrow> bool" where
  "hashable (JArr xs) = False"
| "hashable (JObj kvs) = False"
| "hashable v = True"

fun py_type_name :: "json \<Rightarrow> string" where
  "py_type_name JNull = ''NoneType''"
| "py_type_name (JBool b) = ''bool''"
| "py_type_name (JNum n) = ''int''"
| "py_type_name (JStr s) = ''str''"
| "py_type_name (JArr xs) = ''list''"
| "py_type_name (JObj kvs) = ''dict''"

text \<open>
  A formatted string is kept as its parts: the literal text, and the values an f-string
  formats with \<^verbatim>\<open>str()\<close> (\<open>Fmt\<close>) or \<^verbatim>\<open>repr()\<close> (\<open>Repr\<close>).
\<close>

datatype piece = Lit string | Fmt json | Repr json

type_synonym message = "piece list"

text \<open>An exception: the name of its class (\<^verbatim>\<open>type(e).__name__\<close>) and \<^verbatim>\<open>str(e)\<close>.\<close>

datatype exn = Exn (exn_type: string) (exn_message: message)

text \<open>\<^verbatim>\<open>d.get(k)\<close> and \<^verbatim>\<open>d.get(k, default)\<close> on a dictionary.\<close>

definition get :: "(string \<times> json) list \<Rightarrow> string \<Rightarrow> json" where
  "get d k = (case map_of d k of None \<Rightarrow> JNull | Some v \<Rightarrow> v)"

definition get_default :: "(string \<times> json) list \<Rightarrow> string \<Rightarrow> json \<Rightarrow> json" where
  "get_default d k dflt = (case map_of d k of None \<Rightarrow> dflt | Some v \<Rightarrow> v)"

text \<open>
  Every handler starts by reading \<^verbatim>\<open>parameters.get(...)\<close>, which raises AttributeError
  when \<^verbatim>\<open>parameters\<close> is not a dictionary.
\<close>

definition no_get :: "json \<Rightarrow> exn" where
  "no_get v = Exn ''AttributeError''
     [Lit [CHR 0x27], Lit (py_type_name v), Lit [CHR 0x27], Lit '' object has no attribute '', Lit [CHR 0x27], Lit ''get'', Lit [CHR 0x27]]"

subsection \<open>Requests to the outside world\<close>

datatype arg = Val json | Text message

record http_request =
  meth :: string
  url :: message
  headers :: "(string \<times> message) list"
  params :: "(string \<times> arg) list"
  json_body :: "(string \<times> json) list option"

text \<open>
  What \<^verbatim>\<open>requests.get\<close> / \<^verbatim>\<open>requests.post\<close> does: it raises, or it returns a response
  with a status code whose \<^verbatim>\<open>.json()\<close> raises (malformed body) or yields a value.
\<close>

datatype http_outcome =
    Http_raises exn
  | Http_response nat "exn + json"

text \<open>What \<^verbatim>\<open>subprocess.run(..., check=True)\<close> does with a node script.\<close>

datatype proc_outcome =
    Proc_ok string
  | Called_process_error string
  | Proc_raises exn

text \<open>
  The row of table \<^verbatim>\<open>memory_items\<close> (class MemoryItem): \<^verbatim>\<open>key\<close> is a column of text that
  is never NULL (SQLite does not enforce its length of 100), \<^verbatim>\<open>value\<close> a column of text
  that may be NULL (\<open>None\<close>), \<^verbatim>\<open>metadata\<close> a column of JSON.
\<close>

record memory_item =
  item_id :: nat
  item_key :: string
  item_value :: "string option"
  item_metadata :: json
  created_at :: nat
  updated_at :: nat

datatype event =
    Http_call http_request
  | Db_session
  | Script_dir
  | Temp_file message
  | Node_run string json
  | File_read string
  | File_removed string

text \<open>
  The environment of a request: the configuration (class \<^verbatim>\<open>Config\<close> sets every key that
  the tools read, possibly to \<^verbatim>\<open>None\<close>), the answers of the outside world
  (HTTP servers, the node subprocess, the file system, the JSON parser, \<^verbatim>\<open>int()\<close> on
  a string, which is \<open>None\<close> where Python raises ValueError), the table of the
  memory store, the clock and the source of random identifiers, and a trace of the
  operations done on the outside world.

  The memory table is the table of the SQLite database that the default configuration
  names (\<^verbatim>\<open>MEMORY_DB_URI = 'sqlite:///memory.db'\<close>), reached through SQLAlchemy and the
  \<^verbatim>\<open>sqlite3\<close> driver of Python; its rows are read in the order of their integer primary
  key. \<open>db_error\<close> is the exception that SQLAlchemy raises for a fault reported by the
  driver (its class and text depend on the versions of Python and SQLAlchemy), and
  \<open>str_other\<close> is \<^verbatim>\<open>str()\<close> of a number, a list or a dictionary (Python from 3.11 on
  raises ValueError for an integer of more than 4300 digits). A character of a string is
  a code point below 256.
\<close>

text \<open>
  The faults of the driver: a parameter of a type that cannot be bound (a list or a
  dictionary), a LIKE pattern that is too long, and NULL for the column \<^verbatim>\<open>key\<close>.
\<close>

datatype db_fault = Unsupported json | Pattern_too_long | Key_null

record world =
  config :: "string \<Rightarrow> json"
  http :: "http_request \<Rightarrow> http_outcome"
  script_dir :: "exn option"
  mktemp :: "message \<Rightarrow> exn + string"
  node :: "string \<Rightarrow> json \<Rightarrow> proc_outcome"
  read_file :: "string \<Rightarrow> exn + string"
  json_loads :: "string \<Rightarrow> exn + json"
  parse_int :: "string \<Rightarrow> int option"
  str_other :: "json \<Rightarrow> exn + string"
  db_error :: "db_fault \<Rightarrow> exn"
  table :: "memory_item list"
  clock :: "nat \<Rightarrow> nat"
  ticks :: nat
  uuids :: "nat \<Rightarrow> nat"
  drawn :: nat
  trace :: "event list"

definition log :: "event \<Rightarrow> world \<Rightarrow> world" where
  "log e w = w\<lparr>trace := trace w @ [e]\<rparr>"

text \<open>\<^verbatim>\<open>datetime.datetime.utcnow()\<close>: the next reading of the clock.\<close>

definition utcnow :: "world \<Rightarrow> nat \<times> world" where
  "utcnow w = (clock w (ticks w), w\<lparr>ticks := Suc (ticks w)\<rparr>)"

text \<open>
  \<^verbatim>\<open>uuid.uuid4()\<close>: the next random identifier, as the 128-bit integer of the UUID, and
  \<^verbatim>\<open>str()\<close> of a UUID: its 32 hexadecimal digits in groups of 8, 4, 4, 4 and 12.
\<close>

definition uuid4 :: "world \<Rightarrow> nat \<times> world" where
  "uuid4 w = (uuids w (drawn w), w\<lparr>drawn := Suc (drawn w)\<rparr>)"

definition hex_digit :: "nat \<Rightarrow> char" where
  "hex_digit d = ''0123456789abcdef'' ! (d mod 16)"

definition hex32 :: "nat \<Rightarrow> string" where
  "hex32 n = map (\<lambda>i. hex_digit (n div 16 ^ i)) (rev [0..<32])"

definition uuid_str :: "nat \<Rightarrow> string" where
  "uuid_str n =
    (let h = hex32 n
     in take 8 h @ ''-'' @ take 4 (drop 8 h) @ ''-'' @ take 4 (drop 12 h) @ ''-''
        @ take 4 (drop 16 h) @ ''-'' @ drop 20 h)"

text \<open>
  What a handler returns to the gateway, one constructor for each dictionary the handlers
  build: the JSON of an upstream response; \<^verbatim>\<open>item.to_dict()\<close> (its timestamps stand for
  their \<^verbatim>\<open>isoformat()\<close> strings); \<^verbatim>\<open>{'success': True, 'message': ...}\<close> of a delete;
  \<^verbatim>\<open>{'items', 'total', 'limit', 'offset'}\<close>; \<^verbatim>\<open>{'items', 'count', 'query'}\<close>;
  \<^verbatim>\<open>{'success': True, 'imageType', 'base64Image'}\<close>, \<^verbatim>\<open>{'success': True, 'base64Pdf'}\<close> (with
  the contents of the file, which the source encodes in base64) and
  \<^verbatim>\<open>{'success': True, 'content'}\<close>; and \<^verbatim>\<open>{'success': False, 'error': ...}\<close>.
\<close>

datatype detail = Detail_json json | Detail_str message

datatype result =
    Upstream json
  | Memory_item memory_item
  | Memory_deleted message
  | Memory_list "memory_item list" nat int int
  | Memory_search "memory_item list" nat json
  | Screenshot json string
  | Pdf string
  | Extracted json
  | Puppeteer_failed detail

type_synonym outcome = "(exn + result) \<times> world"

definition raise :: "string \<Rightarrow> message \<Rightarrow> world \<Rightarrow> outcome" where
  "raise cls msg w = (Inl (Exn cls msg), w)"

section \<open>The memory tool\<close>

text \<open>
  Decimal digits of an integer, as SQLite writes an integer that it stores in a column
  of text.
\<close>

definition digit_char :: "nat \<Rightarrow> char" where
  "digit_char d = ''0123456789'' ! (d mod 10)"

fun dec_nat :: "nat \<Rightarrow> string" where
  "dec_nat n = (if n < 10 then [digit_char n] else dec_nat (n div 10) @ [digit_char n])"

declare dec_nat.simps [simp del]

definition dec_int :: "int \<Rightarrow> string" where
  "dec_int n = (if n < 0 then CHR ''-'' # dec_nat (nat (- n)) else dec_nat (nat n))"

text \<open>
  The driver binds a Python integer as a 64-bit integer and raises OverflowError for
  one that does not fit.
\<close>

definition int64 :: "int \<Rightarrow> bool" where
  "int64 n = (- (2 ^ 63) \<le> n \<and> n < 2 ^ 63)"

definition too_large :: exn where
  "too_large = Exn ''OverflowError'' [Lit ''Python int too large to convert to SQLite INTEGER'']"

text \<open>
  A value given for the column \<^verbatim>\<open>key\<close> (String) or \<^verbatim>\<open>value\<close> (Text), as the column then
  holds it or compares with it: \<^verbatim>\<open>None\<close> is NULL, a string is itself, an integer or a
  boolean is bound as an integer and turned into its decimal text by the column, and a
  list or a dictionary cannot be bound.
\<close>

definition bind_text :: "world \<Rightarrow> json \<Rightarrow> exn + string option" where
  "bind_text w v =
    (case v of
       JNull \<Rightarrow> Inr None
     | JBool b \<Rightarrow> Inr (Some (if b then ''1'' else ''0''))
     | JNum n \<Rightarrow> if int64 n then Inr (Some (dec_int n)) else Inl too_large
     | JStr s \<Rightarrow> Inr (Some s)
     | _ \<Rightarrow> Inl (db_error w (Unsupported v)))"

text \<open>The \<^verbatim>\<open>value\<close> that \<^verbatim>\<open>to_dict()\<close> reads back from a row.\<close>

definition json_of_text :: "string option \<Rightarrow> json" where
  "json_of_text t = (case t of None \<Rightarrow> JNull | Some s \<Rightarrow> JStr s)"

text \<open>
  \<^verbatim>\<open>session.query(MemoryItem).filter_by(key=key).first()\<close>; no row has a NULL key.
\<close>

definition first_by_key :: "string option \<Rightarrow> memory_item list \<Rightarrow> memory_item option" where
  "first_by_key k rows = (case k of None \<Rightarrow> None | Some s \<Rightarrow> find (\<lambda>r. item_key r = s) rows)"

text \<open>The integer primary key given to a new row: one more than the largest in use.\<close>

definition next_id :: "memory_item list \<Rightarrow> nat" where
  "next_id rows = Suc (fold max (map item_id rows) 0)"

definition not_found :: "json \<Rightarrow> message" where
  "not_found k = [Lit ''Memory item with key '', Lit [CHR 0x27], Fmt k, Lit [CHR 0x27], Lit '' not found'']"

definition get_memory :: "(string \<times> json) list \<Rightarrow> world \<Rightarrow> outcome" where
  "get_memory parameters w =
    (let k = get parameters ''key'' in
     if \<not> truthy k then raise ''ValueError'' [Lit ''Key parameter is required''] w
     else
       let w1 = log Db_session w in
       case bind_text w1 k of
         Inl e \<Rightarrow> (Inl e, w1)
       | Inr kt \<Rightarrow>
          (case first_by_key kt (table w1) of
             None \<Rightarrow> raise ''ValueError'' (not_found k) w1
           | Some item \<Rightarrow> (Inr (Memory_item item), w1)))"

text \<open>
  \<^verbatim>\<open>set_memory\<close>. The lookup binds the key. For a stored item the handler reads the clock
  and the commit binds the new value; for a new one the commit reads the clock for the
  two defaults and binds key and value. An exception of the commit leaves the table as
  it was. \<^verbatim>\<open>to_dict()\<close> reads the row back after the commit.
\<close>

definition set_memory :: "(string \<times> json) list \<Rightarrow> world \<Rightarrow> outcome" where
  "set_memory parameters w =
    (let k0 = get parameters ''key'';
         v = get parameters ''value'';
         md = get_default parameters ''metadata'' (JObj []);
         (k, w1) = (if \<not> truthy k0 then (let (u, w') = uuid4 w in (JStr (uuid_str u), w')) else (k0, w));
         w2 = log Db_session w1
     in case bind_text w2 k of
          Inl e \<Rightarrow> (Inl e, w2)
        | Inr kt \<Rightarrow>
           (case first_by_key kt (table w2) of
              Some item \<Rightarrow>
                let (now, w3) = utcnow w2 in
                (case bind_text w3 v of
                   Inl e \<Rightarrow> (Inl e, w3)
                 | Inr vt \<Rightarrow>
                    let item' = item\<lparr>item_value := vt, item_metadata := md, updated_at := now\<rparr>;
                        w4 = w3\<lparr>table := map (\<lambda>r. if item_id r = item_id item then item' else r) (table w3)\<rparr>
                    in (Inr (Memory_item item'), w4))
            | None \<Rightarrow>
                let (c, w3) = utcnow w2;
                    (u, w4) = utcnow w3
                in (case kt of
                      None \<Rightarrow> (Inl (db_error w4 Key_null), w4)
                    | Some key \<Rightarrow>
                       (case bind_text w4 v of
                          Inl e \<Rightarrow> (Inl e, w4)
                        | Inr vt \<Rightarrow>
                           let item = \<lparr>item_id = next_id (table w4), item_key = key, item_value = vt,
                                         item_metadata = md, created_at = c, updated_at = u\<rparr>;
                               w5 = w4\<lparr>table := table w4 @ [item]\<rparr>
                           in (Inr (Memory_item item), w5)))))"

definition delete_memory :: "(string \<times> json) list \<Rightarrow> world \<Rightarrow> outcome" where
  "delete_memory parameters w =
    (let k = get parameters ''key'' in
     if \<not> truthy k then raise ''ValueError'' [Lit ''Key parameter is required''] w
     else
       let w1 = log Db_session w in
       case bind_text w1 k of
         Inl e \<Rightarrow> (Inl e, w1)
       | Inr kt \<Rightarrow>
          (case first_by_key kt (table w1) of
             None \<Rightarrow> raise ''ValueError'' (not_found k) w1
           | Some item \<Rightarrow>
               (Inr (Memory_deleted [Lit ''Memory item with key '', Fmt k, Lit '' deleted successfully'']),
                w1\<lparr>table := filter (\<lambda>r. item_id r \<noteq> item_id item) (table w1)\<rparr>)))"

text \<open>\<^verbatim>\<open>int(x)\<close>\<close>

definition py_int :: "world \<Rightarrow> json \<Rightarrow> exn + int" where
  "py_int w v =
    (case v of
       JNum n \<Rightarrow> Inr n
     | JBool b \<Rightarrow> Inr (if b then 1 else 0)
     | JStr s \<Rightarrow>
         (case parse_int w s of
            Some n \<Rightarrow> Inr n
          | None \<Rightarrow> Inl (Exn ''ValueError'' [Lit ''invalid literal for int() with base 10: '', Repr v]))
     | _ \<Rightarrow>
         Inl (Exn ''TypeError''
           [Lit ''int() argument must be a string, a bytes-like object or a real number, not '',
            Lit [CHR 0x27], Lit (py_type_name v), Lit [CHR 0x27]]))"

text \<open>\<^verbatim>\<open>str(x)\<close>, which the f-string of a LIKE pattern applies.\<close>

definition py_str :: "world \<Rightarrow> json \<Rightarrow> exn + string" where
  "py_str w v =
    (case v of
       JNull \<Rightarrow> Inr ''None''
     | JBool b \<Rightarrow> Inr (if b then ''True'' else ''False'')
     | JStr s \<Rightarrow> Inr s
     | _ \<Rightarrow> str_other w v)"

text \<open>
  The LIKE operator of SQLite on text. In the pattern \<^verbatim>\<open>%\<close> stands for any sequence of
  characters and \<^verbatim>\<open>_\<close> for any one character; every other character stands for itself,
  the letters A to Z and a to z without regard to case. SQLite reads pattern and text up
  to their first NUL character, and refuses a pattern of more than 50000 bytes (in
  UTF-8, where a character from 128 on takes two bytes) at the first row it tests.
  LIKE on NULL does not hold.
\<close>

definition lower :: "char \<Rightarrow> char" where
  "lower c =
    (case map_of (zip ''ABCDEFGHIJKLMNOPQRSTUVWXYZ'' ''abcdefghijklmnopqrstuvwxyz'') c of
       None \<Rightarrow> c
     | Some l \<Rightarrow> l)"

fun like :: "string \<Rightarrow> string \<Rightarrow> bool" where
  "like [] t = (t = [])"
| "like (p # ps) [] = (p = CHR ''%'' \<and> like ps [])"
| "like (p # ps) (c # cs) =
    (if p = CHR ''%'' then like ps (c # cs) \<or> like (p # ps) cs
     else (p = CHR ''_'' \<or> lower p = lower c) \<and> like ps cs)"

definition c_str :: "string \<Rightarrow> string" where
  "c_str s = takeWhile (\<lambda>c. c \<noteq> CHR 0x00) s"

definition utf8_length :: "string \<Rightarrow> nat" where
  "utf8_length s = length s + length (filter (\<lambda>c. 128 \<le> (of_char c :: nat)) s)"

definition sql_like :: "string \<Rightarrow> string option \<Rightarrow> bool" where
  "sql_like pattern column =
    (case column of None \<Rightarrow> False | Some t \<Rightarrow> like (c_str pattern) (c_str t))"

definition select_like ::
  "world \<Rightarrow> string \<Rightarrow> (memory_item \<Rightarrow> string option) \<Rightarrow> memory_item list \<Rightarrow> exn + memory_item list" where
  "select_like w pattern column rows =
    (if rows \<noteq> [] \<and> 50000 < utf8_length pattern then Inl (db_error w Pattern_too_long)
     else Inr (filter (\<lambda>r. sql_like pattern (column r)) rows))"

text \<open>
  \<^verbatim>\<open>query.limit(limit).offset(offset).all()\<close>: limit and offset are bound as 64-bit
  integers; SQLite reads a negative limit as no limit and a negative offset as no offset.
\<close>

definition limit_offset :: "int \<Rightarrow> int \<Rightarrow> 'a list \<Rightarrow> exn + 'a list" where
  "limit_offset lim off xs =
    (if int64 lim \<and> int64 off
     then (let ys = drop (nat off) xs in Inr (if lim < 0 then ys else take (nat lim) ys))
     else Inl too_large)"

text \<open>
  \<^verbatim>\<open>list_memory\<close>: \<^verbatim>\<open>query.count()\<close> runs the filter first; the query for the items then binds
  limit and offset.
\<close>

definition list_memory :: "(string \<times> json) list \<Rightarrow> world \<Rightarrow> outcome" where
  "list_memory parameters w =
    (let filter_key = get parameters ''filterKey'' in
     case py_int w (get_default parameters ''limit'' (JNum 100)) of
       Inl e \<Rightarrow> (Inl e, w)
     | Inr lim \<Rightarrow>
        (case py_int w (get_default parameters ''offset'' (JNum 0)) of
           Inl e \<Rightarrow> (Inl e, w)
         | Inr off \<Rightarrow>
            let w1 = log Db_session w in
            (case (if truthy filter_key
                   then (case py_str w1 filter_key of
                           Inl e \<Rightarrow> Inl e
                         | Inr s \<Rightarrow> select_like w1 (''%'' @ s @ ''%'') (\<lambda>r. Some (item_key r)) (table w1))
                   else Inr (table w1)) of
               Inl e \<Rightarrow> (Inl e, w1)
             | Inr query \<Rightarrow>
                (case limit_offset lim off query of
                   Inl e \<Rightarrow> (Inl e, w1)
                 | Inr items \<Rightarrow> (Inr (Memory_list items (length query) lim off), w1)))))"

definition search_memory :: "(string \<times> json) list \<Rightarrow> world \<Rightarrow> outcome" where
  "search_memory parameters w =
    (let query_string = get parameters ''q'' in
     if \<not> truthy query_string then raise ''ValueError'' [Lit ''Query parameter is required''] w
     else
       let w1 = log Db_session w in
       case py_str w1 query_string of
         Inl e \<Rightarrow> (Inl e, w1)
       | Inr s \<Rightarrow>
          (case select_like w1 (''%'' @ s @ ''%'') item_value (table w1) of
             Inl e \<Rightarrow> (Inl e, w1)
           | Inr items \<Rightarrow> (Inr (Memory_search items (length items) query_string), w1)))"

section \<open>Looking an action up\<close>

type_synonym handler = "json \<Rightarrow> world \<Rightarrow> outcome"

text \<open>A handler that reads its parameters with \<^verbatim>\<open>parameters.get\<close> before anything else.\<close>

definition on_dict :: "((string \<times> json) list \<Rightarrow> world \<Rightarrow> outcome) \<Rightarrow> handler" where
  "on_dict h parameters w =
    (case parameters of JObj d \<Rightarrow> h d w | _ \<Rightarrow> (Inl (no_get parameters), w))"

text \<open>
  The body shared by the five \<^verbatim>\<open>handle_action\<close> functions:
  \<^verbatim>\<open>if action not in action_handlers: raise ValueError(f"Unknown action: {action}")\<close>
  and then \<^verbatim>\<open>action_handlers[action](parameters)\<close>.
\<close>

text \<open>The messages of TypeError and AttributeError are those of CPython 3.10 to 3.13.\<close>

definition unhashable :: "json \<Rightarrow> exn" where
  "unhashable v = Exn ''TypeError'' [Lit ''unhashable type: '', Lit [CHR 0x27], Lit (py_type_name v), Lit [CHR 0x27]]"

definition unknown_action :: "json \<Rightarrow> exn" where
  "unknown_action action = Exn ''ValueError'' [Lit ''Unknown action: '', Fmt action]"

definition handle_action :: "(string \<times> handler) list \<Rightarrow> json \<Rightarrow> json \<Rightarrow> world \<Rightarrow> outcome" where
  "handle_action action_handlers action parameters w =
    (if \<not> hashable action then (Inl (unhashable action), w)
     else case action of
       JStr a \<Rightarrow>
         (case map_of action_handlers a of
            None \<Rightarrow> (Inl (unknown_action action), w)
          | Some h \<Rightarrow> h parameters w)
     | _ \<Rightarrow> (Inl (unknown_action action), w))"

definition memory_action_handlers :: "(string \<times> handler) list" where
  "memory_action_handlers =
    [(''get'', on_dict get_memory),
     (''set'', on_dict set_memory),
     (''delete'', on_dict delete_memory),
     (''list'', on_dict list_memory),
     (''search'', on_dict search_memory)]"

definition memory_handle_action :: "json \<Rightarrow> json \<Rightarrow> world \<Rightarrow> outcome" where
  "memory_handle_action = handle_action memory_action_handlers"

section \<open>The tools that call a web API\<close>

text \<open>\<^verbatim>\<open>requests.get(...)\<close> / \<^verbatim>\<open>requests.post(...)\<close>: one call, recorded in the trace.\<close>

definition requests_call :: "http_request \<Rightarrow> world \<Rightarrow> http_outcome \<times> world" where
  "requests_call req w = (http w req, log (Http_call req) w)"

text \<open>
  What every handler does with the response:
  \<^verbatim>\<open>if response.status_code != 200: raise Exception(f"... API error: {response.json()}")\<close>
  and \<^verbatim>\<open>return response.json()\<close>; \<open>ok\<close> lists the accepted status codes.
\<close>

definition api_result :: "string \<Rightarrow> nat list \<Rightarrow> http_outcome \<times> world \<Rightarrow> outcome" where
  "api_result service ok r =
    (case r of (out, w) \<Rightarrow>
      (case out of
         Http_raises e \<Rightarrow> (Inl e, w)
       | Http_response code body \<Rightarrow>
          (case body of
             Inl e \<Rightarrow> (Inl e, w)
           | Inr j \<Rightarrow>
               if code \<in> set ok then (Inr (Upstream j), w)
               else (Inl (Exn ''Exception'' [Lit service, Lit '' API error: '', Fmt j]), w))))"

subsection \<open>GitHub\<close>

definition github_headers :: "world \<Rightarrow> (string \<times> message) list" where
  "github_headers w = [(''Authorization'', [Lit ''token '', Fmt (config w ''GITHUB_TOKEN'')])]"

definition list_repos :: "(string \<times> json) list \<Rightarrow> world \<Rightarrow> outcome" where
  "list_repos parameters w =
    (let username = get parameters ''username'' in
     if \<not> truthy username then raise ''ValueError'' [Lit ''Username parameter is required''] w
     else api_result ''GitHub'' [200]
       (requests_call
          \<lparr>meth = ''GET'',
           url = [Fmt (config w ''GITHUB_API_URL''), Lit ''/users/'', Fmt username, Lit ''/repos''],
           headers = github_headers w, params = [], json_body = None\<rparr> w))"

definition get_repo :: "(string \<times> json) list \<Rightarrow> world \<Rightarrow> outcome" where
  "get_repo parameters w =
    (let owner = get parameters ''owner'';
         repo = get parameters ''repo'' in
     if \<not> truthy owner \<or> \<not> truthy repo
     then raise ''ValueError'' [Lit ''Owner and repo parameters are required''] w
     else api_result ''GitHub'' [200]
       (requests_call
          \<lparr>meth = ''GET'',
           url = [Fmt (config w ''GITHUB_API_URL''), Lit ''/repos/'', Fmt owner, Lit ''/'', Fmt repo],
           headers = github_headers w, params = [], json_body = None\<rparr> w))"

definition search_repos :: "(string \<times> json) list \<Rightarrow> world \<Rightarrow> outcome" where
  "search_repos parameters w =
    (let query = get parameters ''query'' in
     if \<not> truthy query then raise ''ValueError'' [Lit ''Query parameter is required''] w
     else api_result ''GitHub'' [200]
       (requests_call
          \<lparr>meth = ''GET'',
           url = [Fmt (config w ''GITHUB_API_URL''), Lit ''/search/repositories''],
           headers = github_headers w, params = [(''q'', Val query)], json_body = None\<rparr> w))"

definition github_get_issues :: "(string \<times> json) list \<Rightarrow> world \<Rightarrow> outcome" where
  "github_get_issues parameters w =
    (let owner = get parameters ''owner'';
         repo = get parameters ''repo'';
         state = get_default parameters ''state'' (JStr ''open'') in
     if \<not> truthy owner \<or> \<not> truthy repo
     then raise ''ValueError'' [Lit ''Owner and repo parameters are required''] w
     else api_result ''GitHub'' [200]
       (requests_call
          \<lparr>meth = ''GET'',
           url = [Fmt (config w ''GITHUB_API_URL''), Lit ''/repos/'', Fmt owner, Lit ''/'', Fmt repo, Lit ''/issues''],
           headers = github_headers w, params = [(''state'', Val state)], json_body = None\<rparr> w))"

definition github_create_issue :: "(string \<times> json) list \<Rightarrow> world \<Rightarrow> outcome" where
  "github_create_issue parameters w =
    (let owner = get parameters ''owner'';
         repo = get parameters ''repo'';
         title = get parameters ''title'';
         body = get_default parameters ''body'' (JStr '''') in
     if \<not> truthy owner \<or> \<not> truthy repo
     then raise ''ValueError'' [Lit ''Owner and repo parameters are required''] w
     else if \<not> truthy title then raise ''ValueError'' [Lit ''Title parameter is required''] w
     else api_result ''GitHub'' [201, 200]
       (requests_call
          \<lparr>meth = ''POST'',
           url = [Fmt (config w ''GITHUB_API_URL''), Lit ''/repos/'', Fmt owner, Lit ''/'', Fmt repo, Lit ''/issues''],
           headers = github_headers w, params = [],
           json_body = Some [(''title'', title), (''body'', body)]\<rparr> w))"

definition github_action_handlers :: "(string \<times> handler) list" where
  "github_action_handlers =
    [(''listRepos'', on_dict list_repos),
     (''getRepo'', on_dict get_repo),
     (''searchRepos'', on_dict search_repos),
     (''getIssues'', on_dict github_get_issues),
     (''createIssue'', on_dict github_create_issue)]"

definition github_handle_action :: "json \<Rightarrow> json \<Rightarrow> world \<Rightarrow> outcome" where
  "github_handle_action = handle_action github_action_handlers"

subsection \<open>GitLab\<close>

definition gitlab_headers :: "world \<Rightarrow> (string \<times> message) list" where
  "gitlab_headers w = [(''Private-Token'', [Fmt (config w ''GITLAB_TOKEN'')])]"

text \<open>\<^verbatim>\<open>list_projects\<close> does not read its parameters.\<close>

definition list_projects :: "json \<Rightarrow> world \<Rightarrow> outcome" where
  "list_projects parameters w =
    api_result ''GitLab'' [200]
      (requests_call
         \<lparr>meth = ''GET'',
          url = [Fmt (config w ''GITLAB_API_URL''), Lit ''/projects''],
          headers = gitlab_headers w, params = [], json_body = None\<rparr> w)"

definition get_project :: "(string \<times> json) list \<Rightarrow> world \<Rightarrow> outcome" where
  "get_project parameters w =
    (let project_id = get parameters ''projectId'' in
     if \<not> truthy project_id then raise ''ValueError'' [Lit ''Project ID parameter is required''] w
     else api_result ''GitLab'' [200]
       (requests_call
          \<lparr>meth = ''GET'',
           url = [Fmt (config w ''GITLAB_API_URL''), Lit ''/projects/'', Fmt project_id],
           headers = gitlab_headers w, params = [], json_body = None\<rparr> w))"

definition search_projects :: "(string \<times> json) list \<Rightarrow> world \<Rightarrow> outcome" where
  "search_projects parameters w =
    (let query = get parameters ''query'' in
     if \<not> truthy query then raise ''ValueError'' [Lit ''Query parameter is required''] w
     else api_result ''GitLab'' [200]
       (requests_call
          \<lparr>meth = ''GET'',
           url = [Fmt (config w ''GITLAB_API_URL''), Lit ''/search''],
           headers = gitlab_headers w,
           params = [(''scope'', Val (JStr ''projects'')), (''search'', Val query)],
           json_body = None\<rparr> w))"

definition gitlab_get_issues :: "(string \<times> json) list \<Rightarrow> world \<Rightarrow> outcome" where
  "gitlab_get_issues parameters w =
    (let project_id = get parameters ''projectId'';
         state = get_default parameters ''state'' (JStr ''opened'') in
     if \<not> truthy project_id then raise ''ValueError'' [Lit ''Project ID parameter is required''] w
     else api_result ''GitLab'' [200]
       (requests_call
          \<lparr>meth = ''GET'',
           url = [Fmt (config w ''GITLAB_API_URL''), Lit ''/projects/'', Fmt project_id, Lit ''/issues''],
           headers = gitlab_headers w, params = [(''state'', Val state)], json_body = None\<rparr> w))"

definition gitlab_create_issue :: "(string \<times> json) list \<Rightarrow> world \<Rightarrow> outcome" where
  "gitlab_create_issue parameters w =
    (let project_id = get parameters ''projectId'';
         title = get parameters ''title'';
         description = get_default parameters ''description'' (JStr '''') in
     if \<not> truthy project_id then raise ''ValueError'' [Lit ''Project ID parameter is required''] w
     else if \<not> truthy title then raise ''ValueError'' [Lit ''Title parameter is required''] w
     else api_result ''GitLab'' [201, 200]
       (requests_call
          \<lparr>meth = ''POST'',
           url = [Fmt (config w ''GITLAB_API_URL''), Lit ''/projects/'', Fmt project_id, Lit ''/issues''],
           headers = gitlab_headers w, params = [],
           json_body = Some [(''title'', title), (''description'', description)]\<rparr> w))"

definition get_pipelines :: "(string \<times> json) list \<Rightarrow> world \<Rightarrow> outcome" where
  "get_pipelines parameters w =
    (let project_id = get parameters ''projectId'' in
     if \<not> truthy project_id then raise ''ValueError'' [Lit ''Project ID parameter is required''] w
     else api_result ''GitLab'' [200]
       (requests_call
          \<lparr>meth = ''GET'',
           url = [Fmt (config w ''GITLAB_API_URL''), Lit ''/projects/'', Fmt project_id, Lit ''/pipelines''],
           headers = gitlab_headers w, params = [], json_body = None\<rparr> w))"

definition gitlab_action_handlers :: "(string \<times> handler) list" where
  "gitlab_action_handlers =
    [(''listProjects'', list_projects),
     (''getProject'', on_dict get_project),
     (''searchProjects'', on_dict search_projects),
     (''getIssues'', on_dict gitlab_get_issues),
     (''createIssue'', on_dict gitlab_create_issue),
     (''getPipelines'', on_dict get_pipelines)]"

definition gitlab_handle_action :: "json \<Rightarrow> json \<Rightarrow> world \<Rightarrow> outcome" where
  "gitlab_handle_action = handle_action gitlab_action_handlers"

subsection \<open>Google Maps\<close>

definition gmaps_get :: "string \<Rightarrow> (string \<times> arg) list \<Rightarrow> world \<Rightarrow> outcome" where
  "gmaps_get endpoint ps w =
    api_result ''Google Maps'' [200]
      (requests_call
         \<lparr>meth = ''GET'', url = [Lit ''https://maps.googleapis.com/maps/api/'', Lit endpoint],
          headers = [], params = ps, json_body = None\<rparr> w)"

definition geocode :: "(string \<times> json) list \<Rightarrow> world \<Rightarrow> outcome" where
  "geocode parameters w =
    (let address = get parameters ''address'' in
     if \<not> truthy address then raise ''ValueError'' [Lit ''Address parameter is required''] w
     else gmaps_get ''geocode/json''
            [(''address'', Val address), (''key'', Val (config w ''GMAPS_API_KEY''))] w)"

definition reverse_geocode :: "(string \<times> json) list \<Rightarrow> world \<Rightarrow> outcome" where
  "reverse_geocode parameters w =
    (let lat = get parameters ''lat'';
         lng = get parameters ''lng'' in
     if \<not> truthy lat \<or> \<not> truthy lng
     then raise ''ValueError'' [Lit ''Latitude and longitude parameters are required''] w
     else gmaps_get ''geocode/json''
            [(''latlng'', Text [Fmt lat, Lit '','', Fmt lng]), (''key'', Val (config w ''GMAPS_API_KEY''))] w)"

definition get_directions :: "(string \<times> json) list \<Rightarrow> world \<Rightarrow> outcome" where
  "get_directions parameters w =
    (let origin = get parameters ''origin'';
         destination = get parameters ''destination'';
         mode = get_default parameters ''mode'' (JStr ''driving'') in
     if \<not> truthy origin \<or> \<not> truthy destination
     then raise ''ValueError'' [Lit ''Origin and destination parameters are required''] w
     else gmaps_get ''directions/json''
            [(''origin'', Val origin), (''destination'', Val destination), (''mode'', Val mode),
             (''key'', Val (config w ''GMAPS_API_KEY''))] w)"

definition search_places :: "(string \<times> json) list \<Rightarrow> world \<Rightarrow> outcome" where
  "search_places parameters w =
    (let query = get parameters ''query'';
         location = get parameters ''location'';
         radius = get_default parameters ''radius'' (JNum 1000);
         place_type = get parameters ''type'' in
     if \<not> truthy query \<and> \<not> (truthy location \<and> truthy place_type)
     then raise ''ValueError'' [Lit ''Either query or location with type parameters are required''] w
     else if truthy query
     then gmaps_get ''place/textsearch/json''
            [(''key'', Val (config w ''GMAPS_API_KEY'')), (''query'', Val query)] w
     else gmaps_get ''place/nearbysearch/json''
            [(''key'', Val (config w ''GMAPS_API_KEY'')), (''location'', Val location),
             (''radius'', Val radius), (''type'', Val place_type)] w)"

definition get_place_details :: "(string \<times> json) list \<Rightarrow> world \<Rightarrow> outcome" where
  "get_place_details parameters w =
    (let place_id = get parameters ''placeId'' in
     if \<not> truthy place_id then raise ''ValueError'' [Lit ''Place ID parameter is required''] w
     else gmaps_get ''place/details/json''
            [(''place_id'', Val place_id),
             (''fields'', Val (JStr ''name,rating,formatted_address,geometry,photo,opening_hours,price_level,website,formatted_phone_number'')),
             (''key'', Val (config w ''GMAPS_API_KEY''))] w)"

definition gmaps_action_handlers :: "(string \<times> handler) list" where
  "gmaps_action_handlers =
    [(''geocode'', on_dict geocode),
     (''reverseGeocode'', on_dict reverse_geocode),
     (''getDirections'', on_dict get_directions),
     (''searchPlaces'', on_dict search_places),
     (''getPlaceDetails'', on_dict get_place_details)]"

definition gmaps_handle_action :: "json \<Rightarrow> json \<Rightarrow> world \<Rightarrow> outcome" where
  "gmaps_handle_action = handle_action gmaps_action_handlers"

section \<open>The Puppeteer tool\<close>

text \<open>
  \<^verbatim>\<open>ensure_script_dir()\<close> creates the directory and the three node scripts; \<open>script_dir\<close>
  of the environment is the exception it raises, if any.
\<close>

definition ensure_script_dir :: "world \<Rightarrow> exn option \<times> world" where
  "ensure_script_dir w = (script_dir w, log Script_dir w)"

text \<open>
  \<^verbatim>\<open>for param in [...]: if param in parameters: script_args[param] = parameters[param]\<close>
\<close>

definition optional_args :: "string list \<Rightarrow> (string \<times> json) list \<Rightarrow> (string \<times> json) list" where
  "optional_args names parameters =
    List.map_filter (\<lambda>p. map_option (Pair p) (map_of parameters p)) names"

text \<open>
  The handler of \<^verbatim>\<open>subprocess.CalledProcessError\<close>: the error text is the script's stderr,
  or its \<^verbatim>\<open>error\<close> field when stderr parses as a JSON object.
\<close>

definition process_error :: "world \<Rightarrow> string \<Rightarrow> result" where
  "process_error w error_message =
    (case json_loads w error_message of
       Inr (JObj error_data) \<Rightarrow>
         Puppeteer_failed (Detail_json (get_default error_data ''error'' (JStr error_message)))
     | _ \<Rightarrow> Puppeteer_failed (Detail_json (JStr error_message)))"

text \<open>The handler of any other exception: \<^verbatim>\<open>{'success': False, 'error': str(e)}\<close>.\<close>

definition other_error :: "exn \<Rightarrow> result" where
  "other_error e = Puppeteer_failed (Detail_str (exn_message e))"

text \<open>
  \<^verbatim>\<open>take_screenshot\<close> and \<^verbatim>\<open>generate_pdf\<close> after their arguments are built: run the
  script, parse its output, read the file and remove it. The file is removed on each
  path; removing it is taken not to fail. \<open>ok\<close> builds the result from the file's
  contents (which the source encodes in base64).
\<close>

definition run_to_file :: "string \<Rightarrow> json \<Rightarrow> string \<Rightarrow> (string \<Rightarrow> result) \<Rightarrow> world \<Rightarrow> outcome" where
  "run_to_file script script_args output_path ok w =
    (let w1 = log (Node_run script script_args) w in
     case node w script script_args of
       Proc_ok out \<Rightarrow>
         (case json_loads w out of
            Inl e \<Rightarrow> (Inr (other_error e), log (File_removed output_path) w1)
          | Inr parsed \<Rightarrow>
              let w2 = log (File_read output_path) w1 in
              (case read_file w output_path of
                 Inl e \<Rightarrow> (Inr (other_error e), log (File_removed output_path) w2)
               | Inr file_data \<Rightarrow> (Inr (ok file_data), log (File_removed output_path) w2)))
     | Called_process_error err \<Rightarrow>
         (Inr (process_error w err), log (File_removed output_path) w1)
     | Proc_raises e \<Rightarrow> (Inr (other_error e), log (File_removed output_path) w1))"

definition take_screenshot :: "(string \<times> json) list \<Rightarrow> world \<Rightarrow> outcome" where
  "take_screenshot parameters w =
    (let url = get parameters ''url'';
         full_page = get_default parameters ''fullPage'' (JBool False);
         image_type = get_default parameters ''type'' (JStr ''png'') in
     if \<not> truthy url then raise ''ValueError'' [Lit ''URL parameter is required''] w
     else
       let w1 = log (Temp_file [Lit ''.'', Fmt image_type]) w in
       case mktemp w [Lit ''.'', Fmt image_type] of
         Inl e \<Rightarrow> (Inl e, w1)
       | Inr output_path \<Rightarrow>
           run_to_file ''screenshot.js''
             (JObj ([(''url'', url), (''outputPath'', JStr output_path), (''fullPage'', full_page),
                     (''type'', image_type), (''headless'', config w ''PUPPETEER_HEADLESS''),
                     (''executablePath'', config w ''CHROME_PATH'')]
                    @ optional_args [''waitForSelector'', ''waitTime'', ''viewport'', ''userAgent'', ''quality''] parameters))
             output_path (Screenshot image_type) w1)"

definition generate_pdf :: "(string \<times> json) list \<Rightarrow> world \<Rightarrow> outcome" where
  "generate_pdf parameters w =
    (let url = get parameters ''url'';
         print_background = get_default parameters ''printBackground'' (JBool True) in
     if \<not> truthy url then raise ''ValueError'' [Lit ''URL parameter is required''] w
     else
       let w1 = log (Temp_file [Lit ''.pdf'']) w in
       case mktemp w [Lit ''.pdf''] of
         Inl e \<Rightarrow> (Inl e, w1)
       | Inr output_path \<Rightarrow>
           run_to_file ''pdf.js''
             (JObj ([(''url'', url), (''outputPath'', JStr output_path),
                     (''printBackground'', print_background),
                     (''headless'', config w ''PUPPETEER_HEADLESS''),
                     (''executablePath'', config w ''CHROME_PATH'')]
                    @ optional_args [''format'', ''margin'', ''waitForSelector'', ''waitTime'', ''viewport'', ''userAgent''] parameters))
             output_path Pdf w1)"

definition extract_content :: "(string \<times> json) list \<Rightarrow> world \<Rightarrow> outcome" where
  "extract_content parameters w =
    (let url = get parameters ''url'';
         selector = get parameters ''selector'';
         extract_html = get_default parameters ''extractHtml'' (JBool False) in
     if \<not> truthy url then raise ''ValueError'' [Lit ''URL parameter is required''] w
     else
       let script_args =
             JObj ([(''url'', url), (''selector'', selector), (''extractHtml'', extract_html),
                    (''headless'', config w ''PUPPETEER_HEADLESS''),
                    (''executablePath'', config w ''CHROME_PATH'')]
                   @ optional_args [''waitForSelector'', ''waitTime'', ''userAgent''] parameters);
           w1 = log (Node_run ''extract.js'' script_args) w in
       case node w ''extract.js'' script_args of
         Proc_ok out \<Rightarrow>
           (case json_loads w out of
              Inl e \<Rightarrow> (Inr (other_error e), w1)
            | Inr (JObj r) \<Rightarrow> (Inr (Extracted (get r ''content'')), w1)
            | Inr v \<Rightarrow> (Inr (other_error (no_get v)), w1))
       | Called_process_error err \<Rightarrow> (Inr (process_error w err), w1)
       | Proc_raises e \<Rightarrow> (Inr (other_error e), w1))"

definition puppeteer_action_handlers :: "(string \<times> handler) list" where
  "puppeteer_action_handlers =
    [(''screenshot'', on_dict take_screenshot),
     (''pdf'', on_dict generate_pdf),
     (''extract'', on_dict extract_content)]"

definition puppeteer_handle_action :: "json \<Rightarrow> json \<Rightarrow> world \<Rightarrow> outcome" where
  "puppeteer_handle_action action parameters w =
    (case ensure_script_dir w of
       (Some e, w1) \<Rightarrow> (Inl e, w1)
     | (None, w1) \<Rightarrow> handle_action puppeteer_action_handlers action parameters w1)"

section \<open>The gateway\<close>

text \<open>
  The body of a response: \<^verbatim>\<open>{"error": message}\<close>, or the envelope
  \<^verbatim>\<open>{"tool", "action", "status": "success", "result"}\<close> or
  \<^verbatim>\<open>{"tool", "action", "status": "error", "error": {"type", "message"}}\<close>.
\<close>

record mcp_error_object =
  error_type :: string
  error_message :: message

record envelope =
  tool :: json
  action :: json
  status :: string
  result :: "result option"
  error :: "mcp_error_object option"

datatype body = Error_only message | Mcp envelope

record response =
  http_status :: nat
  body :: body

text \<open>
  The \<^verbatim>\<open>if tool_name == "github": ... elif ...\<close> chain of \<^verbatim>\<open>mcp_gateway\<close>: the
  \<^verbatim>\<open>handle_action\<close> of the named tool, \<open>None\<close> in the \<^verbatim>\<open>else\<close> branch.
\<close>

definition route :: "json \<Rightarrow> (json \<Rightarrow> json \<Rightarrow> world \<Rightarrow> outcome) option" where
  "route tool_name =
    (if tool_name = JStr ''github'' then Some github_handle_action
     else if tool_name = JStr ''gitlab'' then Some gitlab_handle_action
     else if tool_name = JStr ''gmaps'' then Some gmaps_handle_action
     else if tool_name = JStr ''memory'' then Some memory_handle_action
     else if tool_name = JStr ''puppeteer'' then Some puppeteer_handle_action
     else None)"

definition mcp_response :: "json \<Rightarrow> json \<Rightarrow> result \<Rightarrow> response" where
  "mcp_response tool_name act r =
    \<lparr>http_status = 200,
     body = Mcp \<lparr>tool = tool_name, action = act, status = ''success'', result = Some r, error = None\<rparr>\<rparr>"

definition mcp_error :: "json \<Rightarrow> json \<Rightarrow> exn \<Rightarrow> response" where
  "mcp_error tool_name act e =
    \<lparr>http_status = 500,
     body = Mcp \<lparr>tool = tool_name, action = act, status = ''error'', result = None,
                error = Some \<lparr>error_type = exn_type e, error_message = exn_message e\<rparr>\<rparr>\<rparr>"

definition error_only :: "nat \<Rightarrow> message \<Rightarrow> response" where
  "error_only code msg = \<lparr>http_status = code, body = Error_only msg\<rparr>"

text \<open>
  \<^verbatim>\<open>mcp_gateway\<close> on the parsed request body. \<open>Inl\<close> is an exception that leaves the
  view function: \<^verbatim>\<open>data.get\<close> on a body that is not an object, outside the \<^verbatim>\<open>try\<close>.
\<close>

definition mcp_gateway :: "json \<Rightarrow> world \<Rightarrow> (exn + response) \<times> world" where
  "mcp_gateway data w =
    (if \<not> truthy data then (Inr (error_only 400 [Lit ''Request body is required'']), w)
     else case data of
       JObj d \<Rightarrow>
         (let tool_name = get d ''tool'';
              act = get d ''action'';
              parameters = get_default d ''parameters'' (JObj []) in
          if \<not> truthy tool_name then (Inr (error_only 400 [Lit ''Tool name is required'']), w)
          else if \<not> truthy act then (Inr (error_only 400 [Lit ''Action is required'']), w)
          else case route tool_name of
            None \<Rightarrow> (Inr (error_only 404 [Lit ''Unknown tool: '', Fmt tool_name]), w)
          | Some handle \<Rightarrow>
              (case handle act parameters w of
                 (Inr r, w') \<Rightarrow> (Inr (mcp_response tool_name act r), w')
               | (Inl e, w') \<Rightarrow> (Inr (mcp_error tool_name act e), w')))
     | _ \<Rightarrow> (Inl (no_get data), w))"

section \<open>The manifest\<close>

text \<open>The dictionary literal returned by \<^verbatim>\<open>mcp_manifest\<close>, with its keys in order.\<close>

record typed =
  type_name :: string
  description :: string

record parameter_spec = typed +
  default_value :: "json option"

record action_spec =
  action_description :: string
  action_parameters :: "(string \<times> parameter_spec) list"
  returns :: typed

record manifest =
  manifestVersion :: string
  tools :: "(string \<times> (string \<times> action_spec) list) list"

definition mcp_manifest :: manifest where
  "mcp_manifest =
    \<lparr>manifestVersion = ''1.0'',
     tools =
       [(''github'',
         [(''listRepos'',
           \<lparr>action_description = ''List repositories for a user or organization'',
            action_parameters =
              [(''username'', \<lparr>type_name = ''string'', description = ''GitHub username or organization name'', default_value = None\<rparr>)],
            returns = \<lparr>type_name = ''array'', description = ''List of repository objects''\<rparr>\<rparr>),
          (''getRepo'',
           \<lparr>action_description = ''Get details for a specific repository'',
            action_parameters =
              [(''owner'', \<lparr>type_name = ''string'', description = ''Repository owner'', default_value = None\<rparr>),
               (''repo'', \<lparr>type_name = ''string'', description = ''Repository name'', default_value = None\<rparr>)],
            returns = \<lparr>type_name = ''object'', description = ''Repository details''\<rparr>\<rparr>),
          (''searchRepos'',
           \<lparr>action_description = ''Search for repositories'',
            action_parameters =
              [(''query'', \<lparr>type_name = ''string'', description = ''Search query'', default_value = None\<rparr>)],
            returns = \<lparr>type_name = ''object'', description = ''Search results''\<rparr>\<rparr>),
          (''getIssues'',
           \<lparr>action_description = ''Get issues for a repository'',
            action_parameters =
              [(''owner'', \<lparr>type_name = ''string'', description = ''Repository owner'', default_value = None\<rparr>),
               (''repo'', \<lparr>type_name = ''string'', description = ''Repository name'', default_value = None\<rparr>),
               (''state'', \<lparr>type_name = ''string'', description = ''Issue state (open, closed, all)'', default_value = Some (JStr ''open'')\<rparr>)],
            returns = \<lparr>type_name = ''array'', description = ''List of issue objects''\<rparr>\<rparr>),
          (''createIssue'',
           \<lparr>action_description = ''Create a new issue in a repository'',
            action_parameters =
              [(''owner'', \<lparr>type_name = ''string'', description = ''Repository owner'', default_value = None\<rparr>),
               (''repo'', \<lparr>type_name = ''string'', description = ''Repository name'', default_value = None\<rparr>),
               (''title'', \<lparr>type_name = ''string'', description = ''Issue title'', default_value = None\<rparr>),
               (''body'', \<lparr>type_name = ''string'', description = ''Issue body'', default_value = None\<rparr>)],
            returns = \<lparr>type_name = ''object'', description = ''Created issue''\<rparr>\<rparr>)]),
        (''gitlab'',
         [(''listProjects'',
           \<lparr>action_description = ''List all projects accessible by the authenticated user'',
            action_parameters =
              [],
            returns = \<lparr>type_name = ''array'', description = ''List of project objects''\<rparr>\<rparr>),
          (''getProject'',
           \<lparr>action_description = ''Get details for a specific project'',
            action_parameters =
              [(''projectId'', \<lparr>type_name = ''string'', description = ''GitLab project ID'', default_value = None\<rparr>)],
            returns = \<lparr>type_name = ''object'', description = ''Project details''\<rparr>\<rparr>),
          (''searchProjects'',
           \<lparr>action_description = ''Search for projects on GitLab'',
            action_parameters =
              [(''query'', \<lparr>type_name = ''string'', description = ''Search query'', default_value = None\<rparr>)],
            returns = \<lparr>type_name = ''object'', description = ''Search results''\<rparr>\<rparr>)]),
        (''gmaps'',
         [(''geocode'',
           \<lparr>action_description = ''Convert an address to geographic coordinates'',
            action_parameters =
              [(''address'', \<lparr>type_name = ''string'', description = ''Address to geocode'', default_value = None\<rparr>)],
            returns = \<lparr>type_name = ''object'', description = ''Geocoding results''\<rparr>\<rparr>),
          (''reverseGeocode'',
           \<lparr>action_description = ''Convert geographic coordinates to an address'',
            action_parameters =
              [(''lat'', \<lparr>type_name = ''number'', description = ''Latitude'', default_value = None\<rparr>),
               (''lng'', \<lparr>type_name = ''number'', description = ''Longitude'', default_value = None\<rparr>)],
            returns = \<lparr>type_name = ''object'', description = ''Reverse geocoding results''\<rparr>\<rparr>),
          (''getDirections'',
           \<lparr>action_description = ''Get directions between two locations'',
            action_parameters =
              [(''origin'', \<lparr>type_name = ''string'', description = ''Origin address or coordinates'', default_value = None\<rparr>),
               (''destination'', \<lparr>type_name = ''string'', description = ''Destination address or coordinates'', default_value = None\<rparr>),
               (''mode'', \<lparr>type_name = ''string'', description = ''Travel mode (driving, walking, bicycling, transit)'', default_value = Some (JStr ''driving'')\<rparr>)],
            returns = \<lparr>type_name = ''object'', description = ''Directions results''\<rparr>\<rparr>)]),
        (''memory'',
         [(''get'',
           \<lparr>action_description = ''Get a memory item by key'',
            action_parameters =
              [(''key'', \<lparr>type_name = ''string'', description = ''Memory item key'', default_value = None\<rparr>)],
            returns = \<lparr>type_name = ''object'', description = ''Memory item''\<rparr>\<rparr>),
          (''set'',
           \<lparr>action_description = ''Create or update a memory item'',
            action_parameters =
              [(''key'', \<lparr>type_name = ''string'', description = ''Memory item key'', default_value = None\<rparr>),
               (''value'', \<lparr>type_name = ''any'', description = ''Memory item value'', default_value = None\<rparr>),
               (''metadata'', \<lparr>type_name = ''object'', description = ''Optional metadata'', default_value = Some (JObj [])\<rparr>)],
            returns = \<lparr>type_name = ''object'', description = ''Created or updated memory item''\<rparr>\<rparr>),
          (''delete'',
           \<lparr>action_description = ''Delete a memory item by key'',
            action_parameters =
              [(''key'', \<lparr>type_name = ''string'', description = ''Memory item key'', default_value = None\<rparr>)],
            returns = \<lparr>type_name = ''object'', description = ''Deletion result''\<rparr>\<rparr>),
          (''list'',
           \<lparr>action_description = ''List all memory items, with optional filtering'',
            action_parameters =
              [(''filterKey'', \<lparr>type_name = ''string'', description = ''Optional key filter'', default_value = None\<rparr>),
               (''limit'', \<lparr>type_name = ''number'', description = ''Maximum number of items to return'', default_value = Some (JNum 100)\<rparr>),
               (''offset'', \<lparr>type_name = ''number'', description = ''Number of items to skip'', default_value = Some (JNum 0)\<rparr>)],
            returns = \<lparr>type_name = ''object'', description = ''List of memory items with pagination info''\<rparr>\<rparr>)]),
        (''puppeteer'',
         [(''screenshot'',
           \<lparr>action_description = ''Take a screenshot of a webpage'',
            action_parameters =
              [(''url'', \<lparr>type_name = ''string'', description = ''URL to screenshot'', default_value = None\<rparr>),
               (''fullPage'', \<lparr>type_name = ''boolean'', description = ''Whether to capture the full page'', default_value = Some (JBool False)\<rparr>),
               (''type'', \<lparr>type_name = ''string'', description = ''Image type (png or jpeg)'', default_value = Some (JStr ''png'')\<rparr>)],
            returns = \<lparr>type_name = ''object'', description = ''Screenshot result with base64-encoded image''\<rparr>\<rparr>),
          (''pdf'',
           \<lparr>action_description = ''Generate a PDF of a webpage'',
            action_parameters =
              [(''url'', \<lparr>type_name = ''string'', description = ''URL to convert to PDF'', default_value = None\<rparr>),
               (''printBackground'', \<lparr>type_name = ''boolean'', description = ''Whether to print background graphics'', default_value = Some (JBool True)\<rparr>)],
            returns = \<lparr>type_name = ''object'', description = ''PDF result with base64-encoded document''\<rparr>\<rparr>),
          (''extract'',
           \<lparr>action_description = ''Extract content from a webpage'',
            action_parameters =
              [(''url'', \<lparr>type_name = ''string'', description = ''URL to extract content from'', default_value = None\<rparr>),
               (''selector'', \<lparr>type_name = ''string'', description = ''CSS selector for content to extract'', default_value = None\<rparr>)],
            returns = \<lparr>type_name = ''object'', description = ''Extracted content''\<rparr>\<rparr>)])]\<rparr>"

text \<open>The (tool, action) pairs the manifest lists, in order.\<close>

definition manifest_actions :: "manifest \<Rightarrow> (string \<times> string) list" where
  "manifest_actions m = concat (map (\<lambda>(t, acts). map (\<lambda>(a, spec). (t, a)) acts) (tools m))"

text \<open>
  The tables \<^verbatim>\<open>action_handlers\<close> of the five tools, by the name the gateway compares
  \<^verbatim>\<open>tool_name\<close> with, and the handler a (tool, action) pair resolves to.
\<close>

definition registry :: "(string \<times> (string \<times> handler) list) list" where
  "registry =
    [(''github'', github_action_handlers),
     (''gitlab'', gitlab_action_handlers),
     (''gmaps'', gmaps_action_handlers),
     (''memory'', memory_action_handlers),
     (''puppeteer'', puppeteer_action_handlers)]"

definition resolve :: "string \<Rightarrow> string \<Rightarrow> handler option" where
  "resolve t a = (case map_of registry t of None \<Rightarrow> None | Some hs \<Rightarrow> map_of hs a)"

definition registry_actions :: "(string \<times> string) list" where
  "registry_actions = concat (map (\<lambda>(t, hs). map (\<lambda>(a, h). (t, a)) hs) registry)"

section \<open>Reading responses, and the tables the theorems are stated with\<close>

text \<open>The envelope of a response, the \<^verbatim>\<open>type\<close> of its error object, and the HTTP status.\<close>

definition envelope_of :: "exn + response \<Rightarrow> envelope option" where
  "envelope_of x =
    (case x of
       Inl e \<Rightarrow> None
     | Inr r \<Rightarrow> (case body r of Mcp env \<Rightarrow> Some env | Error_only m \<Rightarrow> None))"

definition error_kind :: "exn + response \<Rightarrow> string option" where
  "error_kind x =
    (case envelope_of x of
       None \<Rightarrow> None
     | Some env \<Rightarrow> map_option error_type (error env))"

definition status_code :: "exn + response \<Rightarrow> nat option" where
  "status_code x = (case x of Inl e \<Rightarrow> None | Inr r \<Rightarrow> Some (http_status r))"


definition list_items :: "exn + result \<Rightarrow> memory_item list" where
  "list_items x = (case x of Inr (Memory_list items n lim off) \<Rightarrow> items | _ \<Rightarrow> [])"

text \<open>
  The operations on a backend in the trace: everything but the creation of the script
  directory, which \<^verbatim>\<open>puppeteer_tool.handle_action\<close> does before it looks the action up.
\<close>

definition backend_events :: "world \<Rightarrow> event list" where
  "backend_events w = filter (\<lambda>e. e \<noteq> Script_dir) (trace w)"

text \<open>
  The checks of required parameters that the handlers make, in the order each handler
  makes them: the parameters tested together (\<^verbatim>\<open>if not owner or not repo\<close>) and the
  message of the ValueError raised when one of them is absent or falsy. The actions
  \<^verbatim>\<open>listProjects\<close>, \<^verbatim>\<open>set\<close> and \<^verbatim>\<open>list\<close> check nothing; \<^verbatim>\<open>searchPlaces\<close> needs a query
  or a location with a type, and has no parameter that is required by itself.
\<close>

definition checks_table :: "((string \<times> string) \<times> (string list \<times> string) list) list" where
  "checks_table =
    [((''github'', ''listRepos''), [([''username''], ''Username parameter is required'')]),
     ((''github'', ''getRepo''), [([''owner'', ''repo''], ''Owner and repo parameters are required'')]),
     ((''github'', ''searchRepos''), [([''query''], ''Query parameter is required'')]),
     ((''github'', ''getIssues''), [([''owner'', ''repo''], ''Owner and repo parameters are required'')]),
     ((''github'', ''createIssue''),
        [([''owner'', ''repo''], ''Owner and repo parameters are required''),
         ([''title''], ''Title parameter is required'')]),
     ((''gitlab'', ''getProject''), [([''projectId''], ''Project ID parameter is required'')]),
     ((''gitlab'', ''searchProjects''), [([''query''], ''Query parameter is required'')]),
     ((''gitlab'', ''getIssues''), [([''projectId''], ''Project ID parameter is required'')]),
     ((''gitlab'', ''createIssue''),
        [([''projectId''], ''Project ID parameter is required''),
         ([''title''], ''Title parameter is required'')]),
     ((''gitlab'', ''getPipelines''), [([''projectId''], ''Project ID parameter is required'')]),
     ((''gmaps'', ''geocode''), [([''address''], ''Address parameter is required'')]),
     ((''gmaps'', ''reverseGeocode''), [([''lat'', ''lng''], ''Latitude and longitude parameters are required'')]),
     ((''gmaps'', ''getDirections''),
        [([''origin'', ''destination''], ''Origin and destination parameters are required'')]),
     ((''gmaps'', ''getPlaceDetails''), [([''placeId''], ''Place ID parameter is required'')]),
     ((''memory'', ''get''), [([''key''], ''Key parameter is required'')]),
     ((''memory'', ''delete''), [([''key''], ''Key parameter is required'')]),
     ((''memory'', ''search''), [([''q''], ''Query parameter is required'')]),
     ((''puppeteer'', ''screenshot''), [([''url''], ''URL parameter is required'')]),
     ((''puppeteer'', ''pdf''), [([''url''], ''URL parameter is required'')]),
     ((''puppeteer'', ''extract''), [([''url''], ''URL parameter is required'')])]"

definition required_checks :: "string \<Rightarrow> string \<Rightarrow> (string list \<times> string) list" where
  "required_checks t a = (case map_of checks_table (t, a) of None \<Rightarrow> [] | Some cs \<Rightarrow> cs)"

text \<open>The message of the first check that a dictionary of parameters fails, if any.\<close>

definition first_failing :: "(string list \<times> string) list \<Rightarrow> (string \<times> json) list \<Rightarrow> string option" where
  "first_failing checks d =
    map_option snd (find (\<lambda>c. list_ex (\<lambda>p. \<not> truthy (get d p)) (fst c)) checks)"



text \<open>The constraints of the table: the primary key \<^verbatim>\<open>id\<close> and the unique column \<^verbatim>\<open>key\<close>.\<close>

definition table_ok :: "memory_item list \<Rightarrow> bool" where
  "table_ok rows = (distinct (map item_id rows) \<and> distinct (map item_key rows))"

text \<open>
  A concrete environment: the HTTP calls raise, the node scripts exit with an error, the
  table is empty, the clock counts its readings, and the random identifiers are the
  version 4 UUIDs \<^verbatim>\<open>00000000-0000-4000-8000-000000000000\<close>, \<^verbatim>\<open>...0001\<close> and so on.
\<close>

definition world0 :: world where
  "world0 =
    \<lparr>config = (\<lambda>k. JNull),
     http = (\<lambda>r. Http_raises (Exn ''ConnectionError'' [])),
     script_dir = None,
     mktemp = (\<lambda>s. Inr ''/tmp/out''),
     node = (\<lambda>s a. Called_process_error ''boom''),
     read_file = (\<lambda>p. Inr ''''),
     json_loads = (\<lambda>s. Inl (Exn ''JSONDecodeError'' [])),
     parse_int = (\<lambda>s. None),
     str_other = (\<lambda>v. Inr ''[]''),
     db_error = (\<lambda>f. case f of
                    Unsupported v \<Rightarrow> Exn ''ProgrammingError'' []
                  | Pattern_too_long \<Rightarrow> Exn ''OperationalError'' []
                  | Key_null \<Rightarrow> Exn ''IntegrityError'' []),
     table = [],
     clock = (\<lambda>n. n),
     ticks = 0,
     uuids = (\<lambda>n. 4 * 16 ^ 19 + 8 * 16 ^ 15 + n),
     drawn = 0,
     trace = []\<rparr>"

text \<open>
  A handler makes the checks \<open>cs\<close> first: when one fails it raises the ValueError of the
  first that fails and does nothing else; when none fails it goes on to its backend.
\<close>

definition checks_first ::
  "((string \<times> json) list \<Rightarrow> world \<Rightarrow> outcome) \<Rightarrow> (string list \<times> string) list \<Rightarrow> bool" where
  "checks_first h cs =
    (\<forall>ps w. case first_failing cs ps of
        Some m \<Rightarrow> h ps w = (Inl (Exn ''ValueError'' [Lit m]), w)
      | None \<Rightarrow> length (backend_events w) < length (backend_events (snd (h ps w))))"







section \<open>The memory store\<close>




lemma get_single [simp]: "get ((k, v) # d) k = v"
  by (simp add: get_def)

lemma get_second [simp]: "k' \<noteq> k \<Longrightarrow> get ((k', v) # d) k = get d k"
  by (simp add: get_def)

text \<open>What a parameter is bound to depends on the environment only for the exception raised.\<close>

lemma bind_text_cong: "db_error w' = db_error w \<Longrightarrow> bind_text w' v = bind_text w v"
  by (cases v) (simp_all add: bind_text_def)

lemma bind_text_update [simp]:
  "bind_text (w\<lparr>trace := tr\<rparr>) v = bind_text w v"
  "bind_text (w\<lparr>ticks := n\<rparr>) v = bind_text w v"
  "bind_text (w\<lparr>drawn := n\<rparr>) v = bind_text w v"
  "bind_text (w\<lparr>table := rows\<rparr>) v = bind_text w v"
  by (rule bind_text_cong, simp)+

lemma bind_text_str [simp]: "bind_text w (JStr s) = Inr (Some s)"
  by (simp add: bind_text_def)

lemma bind_text_text: "bind_text w (json_of_text t) = Inr t"
  by (simp add: bind_text_def json_of_text_def split: option.splits)










lemma first_by_key_None: "first_by_key (Some k) rows = None \<longleftrightarrow> k \<notin> set (map item_key rows)"
  by (auto simp: first_by_key_def find_None_iff)

lemma first_by_key_Some: "first_by_key (Some k) rows = Some it \<Longrightarrow> it \<in> set rows \<and> item_key it = k"
  by (induction rows) (auto simp: first_by_key_def split: if_splits)

lemma first_by_key_mem: "first_by_key kt rows = Some it \<Longrightarrow> it \<in> set rows"
  by (cases kt) (auto simp: first_by_key_def dest: first_by_key_Some[unfolded first_by_key_def, simplified])

lemma fold_max_ge: "(a::nat) \<le> fold max xs a"
  by (induction xs arbitrary: a) (auto intro: order_trans[OF max.cobounded2])

lemma fold_max_mem: "x \<in> set xs \<Longrightarrow> (x::nat) \<le> fold max xs a"
proof (induction xs arbitrary: a)
  case Nil
  then show ?case by simp
next
  case (Cons y ys)
  then show ?case
    using fold_max_ge[of "max y a" ys] by auto
qed

lemma next_id_fresh: "r \<in> set rows \<Longrightarrow> item_id r < next_id rows"
  using fold_max_mem[of "item_id r" "map item_id rows" 0] by (simp add: next_id_def less_Suc_eq_le)


lemma replace_keeps_table_ok:
  assumes "\<And>r. r \<in> set rows \<Longrightarrow> item_id (f r) = item_id r \<and> item_key (f r) = item_key r"
  shows "table_ok (map f rows) = table_ok rows"
proof -
  have "map item_id (map f rows) = map item_id rows" "map item_key (map f rows) = map item_key rows"
    using assms by (induction rows) auto
  then show ?thesis by (simp only: table_ok_def)
qed

text \<open>
  A call of \<^verbatim>\<open>set_memory\<close> leaves the table as it was (when it raises), adds one row with
  a new id and a key not yet stored, or replaces the row of a stored item.
\<close>

lemma set_memory_table_cases:
  "table (snd (set_memory d w)) = table w
   \<or> (\<exists>new. table (snd (set_memory d w)) = table w @ [new]
         \<and> item_id new = next_id (table w) \<and> item_key new \<notin> set (map item_key (table w)))
   \<or> (\<exists>item v md t. item \<in> set (table w)
         \<and> table (snd (set_memory d w))
             = map (\<lambda>r. if item_id r = item_id item
                        then item\<lparr>item_value := v, item_metadata := md, updated_at := t\<rparr> else r) (table w))"
proof -
  define k where "k = (if truthy (get d ''key'') then get d ''key'' else JStr (uuid_str (uuids w (drawn w))))"
  define w2 where "w2 = log Db_session (if truthy (get d ''key'') then w else w\<lparr>drawn := Suc (drawn w)\<rparr>)"
  have w2: "table w2 = table w" "bind_text w2 = bind_text w"
    by (auto simp: w2_def log_def)
  have unf: "set_memory d w =
    (case bind_text w k of
          Inl e \<Rightarrow> (Inl e, w2)
        | Inr kt \<Rightarrow>
           (case first_by_key kt (table w) of
              Some item \<Rightarrow>
                (case bind_text w (get d ''value'') of
                   Inl e \<Rightarrow> (Inl e, w2\<lparr>ticks := Suc (ticks w2)\<rparr>)
                 | Inr vt \<Rightarrow>
                    (Inr (Memory_item (item\<lparr>item_value := vt, item_metadata := get_default d ''metadata'' (JObj []),
                            updated_at := clock w2 (ticks w2)\<rparr>)),
                     w2\<lparr>ticks := Suc (ticks w2),
                        table := map (\<lambda>r. if item_id r = item_id item
                           then item\<lparr>item_value := vt, item_metadata := get_default d ''metadata'' (JObj []),
                            updated_at := clock w2 (ticks w2)\<rparr> else r) (table w)\<rparr>))
            | None \<Rightarrow>
                (case kt of
                      None \<Rightarrow> (Inl (db_error w Key_null), w2\<lparr>ticks := Suc (Suc (ticks w2))\<rparr>)
                    | Some key \<Rightarrow>
                       (case bind_text w (get d ''value'') of
                          Inl e \<Rightarrow> (Inl e, w2\<lparr>ticks := Suc (Suc (ticks w2))\<rparr>)
                        | Inr vt \<Rightarrow>
                           (Inr (Memory_item \<lparr>item_id = next_id (table w), item_key = key, item_value = vt,
                                         item_metadata = get_default d ''metadata'' (JObj []),
                                         created_at = clock w2 (ticks w2), updated_at = clock w2 (Suc (ticks w2))\<rparr>),
                            w2\<lparr>ticks := Suc (Suc (ticks w2)),
                               table := table w @ [\<lparr>item_id = next_id (table w), item_key = key, item_value = vt,
                                         item_metadata = get_default d ''metadata'' (JObj []),
                                         created_at = clock w2 (ticks w2), updated_at = clock w2 (Suc (ticks w2))\<rparr>]\<rparr>)))))"
    by (simp add: set_memory_def Let_def k_def w2_def log_def utcnow_def uuid4_def
        split: sum.splits option.splits)
  show ?thesis
  proof (cases "bind_text w k")
    case (Inl e)
    then show ?thesis by (simp add: unf w2)
  next
    case (Inr kt)
    show ?thesis
    proof (cases "first_by_key kt (table w)")
      case None
      show ?thesis
      proof (cases kt)
        case nokey: None
        then show ?thesis using Inr None by (simp add: unf w2)
      next
        case (Some key)
        have "key \<notin> set (map item_key (table w))"
          using None Some first_by_key_None[of key "table w"] by simp
        then show ?thesis using Inr None Some
          by (cases "bind_text w (get d ''value'')") (simp_all add: unf w2)
      qed
    next
      case (Some item)
      have "item \<in> set (table w)"
        using first_by_key_mem[OF Some] .
      then show ?thesis using Inr Some
        by (cases "bind_text w (get d ''value'')") (auto simp: unf w2)
    qed
  qed
qed

text \<open>The constraints hold of the empty table and are kept by every write.\<close>

lemma set_memory_table_ok:
  assumes ok: "table_ok (table w)"
  shows "table_ok (table (snd (set_memory d w)))"
  using set_memory_table_cases[of d w]
proof (elim disjE conjE exE)
  assume "table (snd (set_memory d w)) = table w"
  then show ?thesis using ok by simp
next
  fix new
  assume new: "table (snd (set_memory d w)) = table w @ [new]"
      "item_id new = next_id (table w)" "item_key new \<notin> set (map item_key (table w))"
  have "next_id (table w) \<notin> set (map item_id (table w))"
  proof
    assume "next_id (table w) \<in> set (map item_id (table w))"
    then obtain r where "r \<in> set (table w)" "item_id r = next_id (table w)" by auto
    then show False using next_id_fresh[of r "table w"] by simp
  qed
  then show ?thesis using ok new by (simp add: table_ok_def)
next
  fix item v md t
  assume some: "item \<in> set (table w)"
    and tab: "table (snd (set_memory d w))
            = map (\<lambda>r. if item_id r = item_id item
                       then item\<lparr>item_value := v, item_metadata := md, updated_at := t\<rparr> else r) (table w)"
  have "inj_on item_id (set (table w))"
    using ok by (simp add: table_ok_def distinct_map)
  then have same: "r \<in> set (table w) \<Longrightarrow> item_id r = item_id item \<Longrightarrow> r = item" for r
    using some by (auto dest: inj_onD)
  show ?thesis
    unfolding tab using ok
    by (subst replace_keeps_table_ok) (auto dest: same)
qed

lemma delete_memory_table_ok:
  assumes "table_ok (table w)"
  shows "table_ok (table (snd (delete_memory d w)))"
  using assms
  by (auto simp: delete_memory_def Let_def log_def raise_def table_ok_def distinct_map_filter
      split: option.splits sum.splits)




lemma length_hex32: "length (hex32 n) = 32"
  by (simp add: hex32_def)













text \<open>
  LIKE with a pattern \<^verbatim>\<open>%s%\<close>, where \<open>s\<close> is plain, holds of the texts in which \<open>s\<close>
  occurs when the case of the letters A to Z is ignored.
\<close>

lemma like_percent: "like (CHR ''%'' # ps) t \<longleftrightarrow> (\<exists>u v. t = u @ v \<and> like ps v)"
proof (induction t)
  case Nil
  then show ?case by simp
next
  case (Cons c cs)
  have "(\<exists>u v. c # cs = u @ v \<and> like ps v) \<longleftrightarrow> like ps (c # cs) \<or> (\<exists>u v. cs = u @ v \<and> like ps v)"
    by (auto simp: Cons_eq_append_conv)
  then show ?case using Cons by simp
qed


lemma like_any [simp]: "like ''%'' t"
  by (simp add: like_percent)





lemma py_str_log [simp]: "py_str (w\<lparr>trace := tr\<rparr>) v = py_str w v"
  by (cases v) (simp_all add: py_str_def)






section \<open>The answers of the gateway\<close>

lemma truthy_get_nonempty: "truthy (get d k) \<Longrightarrow> d \<noteq> []"
  by (auto simp: get_def)

lemma route_None: "route v = None \<longleftrightarrow> v \<notin> set (map (JStr \<circ> fst) registry)"
  by (auto simp: route_def registry_def)

text \<open>Past the checks of the request, the gateway wraps what the tool's handler does.\<close>

lemma gateway_routed:
  assumes "truthy (get d ''tool'')" "truthy (get d ''action'')" "route (get d ''tool'') = Some handle"
  shows "mcp_gateway (JObj d) w =
    (case handle (get d ''action'') (get_default d ''parameters'' (JObj [])) w of
       (Inr r, w') \<Rightarrow> (Inr (mcp_response (get d ''tool'') (get d ''action'') r), w')
     | (Inl e, w') \<Rightarrow> (Inr (mcp_error (get d ''tool'') (get d ''action'') e), w'))"
  using assms truthy_get_nonempty[OF assms(1)]
  by (simp add: mcp_gateway_def Let_def)

lemma gateway_unrouted:
  assumes "truthy (get d ''tool'')" "truthy (get d ''action'')" "route (get d ''tool'') = None"
  shows "mcp_gateway (JObj d) w = (Inr (error_only 404 [Lit ''Unknown tool: '', Fmt (get d ''tool'')]), w)"
  using assms truthy_get_nonempty[OF assms(1)]
  by (simp add: mcp_gateway_def Let_def)

lemma handle_action_unknown:
  assumes "hashable act" "act \<notin> set (map (JStr \<circ> fst) hs)"
  shows "handle_action hs act p w = (Inl (unknown_action act), w)"
proof (cases act)
  case (JStr a)
  then have "a \<notin> fst ` set hs" using assms(2) by force
  then have "map_of hs a = None" by (simp add: map_of_eq_None_iff)
  then show ?thesis using JStr by (simp add: handle_action_def)
qed (use assms in \<open>simp_all add: handle_action_def\<close>)

lemma route_registered:
  assumes "map_of registry t = Some hs"
  shows "\<exists>handle. route (JStr t) = Some handle \<and>
     (\<forall>act p w. (t = ''puppeteer'' \<longrightarrow> script_dir w = None) \<longrightarrow>
        handle act p w = handle_action hs act p (if t = ''puppeteer'' then log Script_dir w else w))"
  using assms
  by (auto simp: registry_def route_def github_handle_action_def gitlab_handle_action_def
      gmaps_handle_action_def memory_handle_action_def puppeteer_handle_action_def
      ensure_script_dir_def split: if_splits)

text \<open>
  C2 (as amended). For a request with a truthy tool and a truthy action: when the tool is
  none of the five registered names, the gateway answers HTTP 404 with the body
  \<^verbatim>\<open>{"error": "Unknown tool: <tool>"}\<close>, which is no envelope and has no error type; when
  the tool is registered and the (hashable) action is not in its table of handlers, the
  gateway answers with the error envelope (HTTP 500) whose error has type
  \<^verbatim>\<open>ValueError\<close> and message \<^verbatim>\<open>Unknown action: <action>\<close>. For puppeteer this supposes that
  the script directory could be created. The code has no kinds UnknownTool and
  UnknownAction; the two cases differ in HTTP status and in the shape of the body.
\<close>

theorem unknown_tool_and_unknown_action:
  assumes tool: "truthy (get d ''tool'')" and act: "truthy (get d ''action'')"
  shows "(get d ''tool'' \<notin> set (map (JStr \<circ> fst) registry) \<longrightarrow>
            mcp_gateway (JObj d) w
              = (Inr (error_only 404 [Lit ''Unknown tool: '', Fmt (get d ''tool'')]), w)
            \<and> error_kind (fst (mcp_gateway (JObj d) w)) = None)
       \<and> (\<forall>t hs. get d ''tool'' = JStr t \<and> map_of registry t = Some hs
              \<and> hashable (get d ''action'') \<and> get d ''action'' \<notin> set (map (JStr \<circ> fst) hs)
              \<and> (t = ''puppeteer'' \<longrightarrow> script_dir w = None) \<longrightarrow>
            fst (mcp_gateway (JObj d) w)
              = Inr (mcp_error (JStr t) (get d ''action'') (unknown_action (get d ''action'')))
            \<and> error_kind (fst (mcp_gateway (JObj d) w)) = Some ''ValueError'')"
proof (intro conjI impI allI)
  assume "get d ''tool'' \<notin> set (map (JStr \<circ> fst) registry)"
  then have "route (get d ''tool'') = None" using route_None by blast
  from gateway_unrouted[OF tool act this]
  show "mcp_gateway (JObj d) w
      = (Inr (error_only 404 [Lit ''Unknown tool: '', Fmt (get d ''tool'')]), w)" .
  then show "error_kind (fst (mcp_gateway (JObj d) w)) = None"
    by (simp add: error_kind_def envelope_of_def error_only_def)
next
  fix t hs
  assume a: "get d ''tool'' = JStr t \<and> map_of registry t = Some hs
      \<and> hashable (get d ''action'') \<and> get d ''action'' \<notin> set (map (JStr \<circ> fst) hs)
      \<and> (t = ''puppeteer'' \<longrightarrow> script_dir w = None)"
  then obtain handle where h: "route (JStr t) = Some handle"
    "handle (get d ''action'') (get_default d ''parameters'' (JObj [])) w
       = handle_action hs (get d ''action'') (get_default d ''parameters'' (JObj []))
           (if t = ''puppeteer'' then log Script_dir w else w)"
    using route_registered[of t hs] by blast
  have "handle (get d ''action'') (get_default d ''parameters'' (JObj [])) w
      = (Inl (unknown_action (get d ''action'')), if t = ''puppeteer'' then log Script_dir w else w)"
    using h(2) a handle_action_unknown by simp
  then show r: "fst (mcp_gateway (JObj d) w)
      = Inr (mcp_error (JStr t) (get d ''action'') (unknown_action (get d ''action'')))"
    using gateway_routed[OF tool act, of handle w] h(1) a by simp
  show "error_kind (fst (mcp_gateway (JObj d) w)) = Some ''ValueError''"
    by (simp add: r error_kind_def envelope_of_def mcp_error_def unknown_action_def)
qed

theorem unknown_tool_and_unknown_action_witness:
  "truthy (get [(''tool'', JStr ''nope''), (''action'', JStr ''get'')] ''tool'')
   \<and> truthy (get [(''tool'', JStr ''nope''), (''action'', JStr ''get'')] ''action'')
   \<and> JStr ''nope'' \<notin> set (map (JStr \<circ> fst) registry)
   \<and> mcp_gateway (JObj [(''tool'', JStr ''nope''), (''action'', JStr ''get'')]) world0
       = (Inr (error_only 404 [Lit ''Unknown tool: '', Fmt (JStr ''nope'')]), world0)
   \<and> truthy (get [(''tool'', JStr ''memory''), (''action'', JStr ''nope'')] ''tool'')
   \<and> truthy (get [(''tool'', JStr ''memory''), (''action'', JStr ''nope'')] ''action'')
   \<and> map_of registry ''memory'' = Some memory_action_handlers
   \<and> hashable (JStr ''nope'')
   \<and> JStr ''nope'' \<notin> set (map (JStr \<circ> fst) memory_action_handlers)
   \<and> fst (mcp_gateway (JObj [(''tool'', JStr ''memory''), (''action'', JStr ''nope'')]) world0)
       = Inr (mcp_error (JStr ''memory'') (JStr ''nope'') (unknown_action (JStr ''nope'')))"
proof -
  let ?d1 = "[(''tool'', JStr ''nope''), (''action'', JStr ''get'')]"
  let ?d2 = "[(''tool'', JStr ''memory''), (''action'', JStr ''nope'')]"
  have h1: "truthy (get ?d1 ''tool'')" "truthy (get ?d1 ''action'')"
    and h2: "truthy (get ?d2 ''tool'')" "truthy (get ?d2 ''action'')"
    by simp_all
  have r: "JStr ''nope'' \<notin> set (map (JStr \<circ> fst) registry)"
    "map_of registry ''memory'' = Some memory_action_handlers"
    "JStr ''nope'' \<notin> set (map (JStr \<circ> fst) memory_action_handlers)"
    by (simp_all add: registry_def memory_action_handlers_def)
  show ?thesis
    using h1 h2 r unknown_tool_and_unknown_action[OF h1, of world0]
      unknown_tool_and_unknown_action[OF h2, of world0]
    by simp
qed

text \<open>
  An unknown tool gets a body with no error type at all, and HTTP 404; an unknown action
  gets the error type \<^verbatim>\<open>ValueError\<close>.
\<close>

theorem unknown_tool_kind_counterexample:
  "error_kind (fst (mcp_gateway (JObj [(''tool'', JStr ''nope''), (''action'', JStr ''get'')]) world0)) = None
   \<and> status_code (fst (mcp_gateway (JObj [(''tool'', JStr ''nope''), (''action'', JStr ''get'')]) world0)) = Some 404
   \<and> error_kind (fst (mcp_gateway (JObj [(''tool'', JStr ''memory''), (''action'', JStr ''nope'')]) world0))
       = Some ''ValueError''"
  by (simp add: mcp_gateway_def route_def Let_def get_default_def error_kind_def envelope_of_def
      error_only_def status_code_def memory_handle_action_def handle_action_def
      memory_action_handlers_def mcp_error_def unknown_action_def)

text \<open>
  C6 (as amended). For every request body that is a JSON object whose \<^verbatim>\<open>tool\<close> is absent
  or falsy (the empty string, null, ...), whatever its \<^verbatim>\<open>action\<close> and \<^verbatim>\<open>parameters\<close>, the
  gateway answers HTTP 400 with the body \<^verbatim>\<open>{"error": "Tool name is required"}\<close>
  (\<^verbatim>\<open>{"error": "Request body is required"}\<close> for the empty object) and leaves the
  environment untouched: no tool is looked up and no handler runs. The body is not an
  envelope and carries no error type.
\<close>

theorem missing_tool:
  assumes "\<not> truthy (get d ''tool'')"
  shows "mcp_gateway (JObj d) w
    = (Inr (error_only 400
         [Lit (if d = [] then ''Request body is required'' else ''Tool name is required'')]), w)"
  using assms by (simp add: mcp_gateway_def Let_def)

theorem missing_tool_witness:
  "\<not> truthy (get [(''tool'', JStr []), (''action'', JStr ''get''), (''parameters'', JObj [])] ''tool'')
   \<and> mcp_gateway (JObj [(''tool'', JStr []), (''action'', JStr ''get''), (''parameters'', JObj [])]) world0
       = (Inr (error_only 400 [Lit ''Tool name is required'']), world0)
   \<and> \<not> truthy (get [(''action'', JStr ''get'')] ''tool'')
   \<and> mcp_gateway (JObj [(''action'', JStr ''get'')]) world0
       = (Inr (error_only 400 [Lit ''Tool name is required'']), world0)"
proof -
  let ?d1 = "[(''tool'', JStr []), (''action'', JStr ''get''), (''parameters'', JObj [])]"
  let ?d2 = "[(''action'', JStr ''get'')]"
  have h: "\<not> truthy (get ?d1 ''tool'')" "\<not> truthy (get ?d2 ''tool'')"
    by (simp_all add: get_def)
  show ?thesis
    using h missing_tool[OF h(1), of world0] missing_tool[OF h(2), of world0] by simp
qed

text \<open>The answer to an empty tool name is not an envelope and has no error type.\<close>

theorem missing_tool_envelope_counterexample:
  "envelope_of (fst (mcp_gateway
      (JObj [(''tool'', JStr []), (''action'', JStr ''get''), (''parameters'', JObj [])]) world0)) = None
   \<and> error_kind (fst (mcp_gateway
      (JObj [(''tool'', JStr []), (''action'', JStr ''get''), (''parameters'', JObj [])]) world0))
       \<noteq> Some ''MissingTool''"
  by (simp add: mcp_gateway_def Let_def error_kind_def envelope_of_def error_only_def)

text \<open>
  C8 (as amended). The HTTP status of the gateway, for a request body that is a JSON
  object: 400 when the tool or the action is absent or falsy; otherwise 404 when the tool
  is none of the five registered names; otherwise 200 when the tool's \<^verbatim>\<open>handle_action\<close>
  returns and 500 when it raises (an unknown action and a missing parameter included).
  The envelope has status \<^verbatim>\<open>success\<close> exactly with 200 and status \<^verbatim>\<open>error\<close> exactly with
  500; with 400 and 404 the body is no envelope.
\<close>

theorem gateway_http_status:
  "status_code (fst (mcp_gateway (JObj d) w))
     = Some (if truthy (get d ''tool'') \<and> truthy (get d ''action'')
             then (case route (get d ''tool'') of
                     None \<Rightarrow> 404
                   | Some handle \<Rightarrow>
                       (case fst (handle (get d ''action'') (get_default d ''parameters'' (JObj [])) w) of
                          Inr r \<Rightarrow> 200
                        | Inl e \<Rightarrow> 500))
             else 400)
   \<and> map_option status (envelope_of (fst (mcp_gateway (JObj d) w)))
     = (if status_code (fst (mcp_gateway (JObj d) w)) = Some 200 then Some ''success''
        else if status_code (fst (mcp_gateway (JObj d) w)) = Some 500 then Some ''error''
        else None)"
proof (cases "truthy (get d ''tool'') \<and> truthy (get d ''action'')")
  case False
  then show ?thesis
    by (auto simp: mcp_gateway_def Let_def status_code_def envelope_of_def error_only_def)
next
  case True
  show ?thesis
  proof (cases "route (get d ''tool'')")
    case None
    then show ?thesis using True gateway_unrouted[of d w]
      by (simp add: status_code_def envelope_of_def error_only_def)
  next
    case (Some handle)
    then show ?thesis using True gateway_routed[of d handle w]
      by (auto simp: status_code_def envelope_of_def mcp_response_def mcp_error_def
          split: prod.splits sum.splits)
  qed
qed

theorem gateway_http_status_witness:
  "status_code (fst (mcp_gateway (JObj [(''tool'', JStr ''memory''), (''action'', JStr ''set''),
       (''parameters'', JObj [(''key'', JStr ''k''), (''value'', JStr ''v'')])]) world0)) = Some 200
   \<and> status_code (fst (mcp_gateway (JObj [(''tool'', JStr ''memory''), (''action'', JStr ''get''),
       (''parameters'', JObj [(''key'', JStr ''k'')])]) world0)) = Some 500
   \<and> status_code (fst (mcp_gateway (JObj [(''tool'', JStr ''github''), (''action'', JStr ''listRepos''),
       (''parameters'', JObj [(''username'', JStr ''octocat'')])]) world0)) = Some 500
   \<and> status_code (fst (mcp_gateway (JObj [(''tool'', JStr ''memory'')]) world0)) = Some 400"
  using gateway_http_status[of "[(''tool'', JStr ''memory''), (''action'', JStr ''set''),
       (''parameters'', JObj [(''key'', JStr ''k''), (''value'', JStr ''v'')])]" world0]
    gateway_http_status[of "[(''tool'', JStr ''memory''), (''action'', JStr ''get''),
       (''parameters'', JObj [(''key'', JStr ''k'')])]" world0]
    gateway_http_status[of "[(''tool'', JStr ''github''), (''action'', JStr ''listRepos''),
       (''parameters'', JObj [(''username'', JStr ''octocat'')])]" world0]
    gateway_http_status[of "[(''tool'', JStr ''memory'')]" world0]
  by (simp add: route_def get_default_def memory_handle_action_def github_handle_action_def
      handle_action_def memory_action_handlers_def github_action_handlers_def on_dict_def
      set_memory_def get_memory_def list_repos_def Let_def log_def utcnow_def first_by_key_def
      world0_def raise_def api_result_def requests_call_def get_def)

text \<open>An unknown tool is answered with HTTP 404, not 500.\<close>

theorem unknown_tool_status_counterexample:
  "status_code (fst (mcp_gateway (JObj [(''tool'', JStr ''weather''), (''action'', JStr ''get'')]) world0))
     = Some 404"
  by (simp add: mcp_gateway_def route_def Let_def get_default_def error_only_def status_code_def)

section \<open>Required parameters\<close>

lemma backend_events_log [simp]:
  "backend_events (log e w) = backend_events w @ (if e = Script_dir then [] else [e])"
  by (simp add: backend_events_def log_def)

lemma snd_api_result [simp]: "snd (api_result service ok (out, w)) = w"
  by (simp add: api_result_def split: http_outcome.splits sum.splits)

lemma snd_requests_call [simp]: "snd (requests_call req w) = log (Http_call req) w"
  by (simp add: requests_call_def)

lemma api_call_events [simp]:
  "backend_events (snd (api_result service ok (requests_call req w))) = backend_events w @ [Http_call req]"
  by (simp add: requests_call_def)

lemma gmaps_get_events [simp]:
  "length (backend_events (snd (gmaps_get endpoint ps w))) = Suc (length (backend_events w))"
  by (simp add: gmaps_get_def)

lemma run_to_file_events:
  "length (backend_events w) < length (backend_events (snd (run_to_file script args path ok w)))"
  by (simp add: run_to_file_def Let_def split: proc_outcome.splits sum.splits)

lemma github_checks:
  "checks_first list_repos [([''username''], ''Username parameter is required'')]"
  "checks_first get_repo [([''owner'', ''repo''], ''Owner and repo parameters are required'')]"
  "checks_first search_repos [([''query''], ''Query parameter is required'')]"
  "checks_first github_get_issues [([''owner'', ''repo''], ''Owner and repo parameters are required'')]"
  "checks_first github_create_issue
     [([''owner'', ''repo''], ''Owner and repo parameters are required''),
      ([''title''], ''Title parameter is required'')]"
  by (simp_all add: checks_first_def first_failing_def raise_def Let_def list_repos_def get_repo_def
      search_repos_def github_get_issues_def github_create_issue_def)

lemma gitlab_checks:
  "checks_first get_project [([''projectId''], ''Project ID parameter is required'')]"
  "checks_first search_projects [([''query''], ''Query parameter is required'')]"
  "checks_first gitlab_get_issues [([''projectId''], ''Project ID parameter is required'')]"
  "checks_first gitlab_create_issue
     [([''projectId''], ''Project ID parameter is required''),
      ([''title''], ''Title parameter is required'')]"
  "checks_first get_pipelines [([''projectId''], ''Project ID parameter is required'')]"
  by (simp_all add: checks_first_def first_failing_def raise_def Let_def get_project_def
      search_projects_def gitlab_get_issues_def gitlab_create_issue_def get_pipelines_def)

lemma gmaps_checks:
  "checks_first geocode [([''address''], ''Address parameter is required'')]"
  "checks_first reverse_geocode [([''lat'', ''lng''], ''Latitude and longitude parameters are required'')]"
  "checks_first get_directions
     [([''origin'', ''destination''], ''Origin and destination parameters are required'')]"
  "checks_first get_place_details [([''placeId''], ''Place ID parameter is required'')]"
  by (simp_all add: checks_first_def first_failing_def raise_def Let_def geocode_def
      reverse_geocode_def get_directions_def get_place_details_def)

lemma memory_checks:
  "checks_first get_memory [([''key''], ''Key parameter is required'')]"
  "checks_first delete_memory [([''key''], ''Key parameter is required'')]"
  "checks_first search_memory [([''q''], ''Query parameter is required'')]"
  by (simp_all add: checks_first_def first_failing_def raise_def Let_def get_memory_def
      delete_memory_def search_memory_def backend_events_def log_def split: option.splits sum.splits)

lemma puppeteer_checks:
  "checks_first take_screenshot [([''url''], ''URL parameter is required'')]"
  "checks_first generate_pdf [([''url''], ''URL parameter is required'')]"
  "checks_first extract_content [([''url''], ''URL parameter is required'')]"
proof -
  have less: "length (backend_events (log e w)) \<le> n \<Longrightarrow> e \<noteq> Script_dir \<Longrightarrow> length (backend_events w) < n"
    for e w n by simp
  show "checks_first take_screenshot [([''url''], ''URL parameter is required'')]"
    by (auto simp: checks_first_def first_failing_def raise_def Let_def take_screenshot_def
        split: sum.splits intro!: less[OF less_imp_le[OF run_to_file_events]])
  show "checks_first generate_pdf [([''url''], ''URL parameter is required'')]"
    by (auto simp: checks_first_def first_failing_def raise_def Let_def generate_pdf_def
        split: sum.splits intro!: less[OF less_imp_le[OF run_to_file_events]])
  show "checks_first extract_content [([''url''], ''URL parameter is required'')]"
    by (auto simp: checks_first_def first_failing_def raise_def Let_def extract_content_def
        split: sum.splits proc_outcome.splits json.splits)
qed

lemma resolve_simps:
  "resolve ''github'' ''listRepos'' = Some (on_dict list_repos)"
  "resolve ''github'' ''getRepo'' = Some (on_dict get_repo)"
  "resolve ''github'' ''searchRepos'' = Some (on_dict search_repos)"
  "resolve ''github'' ''getIssues'' = Some (on_dict github_get_issues)"
  "resolve ''github'' ''createIssue'' = Some (on_dict github_create_issue)"
  "resolve ''gitlab'' ''getProject'' = Some (on_dict get_project)"
  "resolve ''gitlab'' ''searchProjects'' = Some (on_dict search_projects)"
  "resolve ''gitlab'' ''getIssues'' = Some (on_dict gitlab_get_issues)"
  "resolve ''gitlab'' ''createIssue'' = Some (on_dict gitlab_create_issue)"
  "resolve ''gitlab'' ''getPipelines'' = Some (on_dict get_pipelines)"
  "resolve ''gmaps'' ''geocode'' = Some (on_dict geocode)"
  "resolve ''gmaps'' ''reverseGeocode'' = Some (on_dict reverse_geocode)"
  "resolve ''gmaps'' ''getDirections'' = Some (on_dict get_directions)"
  "resolve ''gmaps'' ''getPlaceDetails'' = Some (on_dict get_place_details)"
  "resolve ''memory'' ''get'' = Some (on_dict get_memory)"
  "resolve ''memory'' ''delete'' = Some (on_dict delete_memory)"
  "resolve ''memory'' ''search'' = Some (on_dict search_memory)"
  "resolve ''puppeteer'' ''screenshot'' = Some (on_dict take_screenshot)"
  "resolve ''puppeteer'' ''pdf'' = Some (on_dict generate_pdf)"
  "resolve ''puppeteer'' ''extract'' = Some (on_dict extract_content)"
  by (simp_all add: resolve_def registry_def github_action_handlers_def
      gitlab_action_handlers_def gmaps_action_handlers_def memory_action_handlers_def
      puppeteer_action_handlers_def)

lemmas handler_checks = github_checks gitlab_checks gmaps_checks memory_checks puppeteer_checks

lemma checks_table_sound:
  assumes "((t, a), cs) \<in> set checks_table"
  shows "\<exists>h. resolve t a = Some (on_dict h) \<and> checks_first h cs"
  using assms unfolding checks_table_def
  by (simp only: list.set insert_iff empty_iff prod.inject)
     (elim disjE conjE FalseE; hypsubst; intro exI conjI; (rule resolve_simps | rule handler_checks))


lemma resolve_names:
  assumes "resolve t a = Some h"
  shows "t \<noteq> [] \<and> a \<noteq> []"
proof -
  from assms obtain hs where "(t, hs) \<in> set registry" "(a, h) \<in> set hs"
    by (auto simp: resolve_def split: option.splits dest: map_of_SomeD)
  then show ?thesis
    by (auto simp: registry_def github_action_handlers_def
      gitlab_action_handlers_def gmaps_action_handlers_def memory_action_handlers_def
      puppeteer_action_handlers_def)
qed

text \<open>A request for a registered action is answered with what its handler does.\<close>

lemma gateway_resolved:
  assumes tool: "get d ''tool'' = JStr t" and act: "get d ''action'' = JStr a"
    and h: "resolve t a = Some h" and dir: "t = ''puppeteer'' \<longrightarrow> script_dir w = None"
  shows "mcp_gateway (JObj d) w =
    (case h (get_default d ''parameters'' (JObj [])) (if t = ''puppeteer'' then log Script_dir w else w) of
       (Inr r, w') \<Rightarrow> (Inr (mcp_response (JStr t) (JStr a) r), w')
     | (Inl e, w') \<Rightarrow> (Inr (mcp_error (JStr t) (JStr a) e), w'))"
proof -
  let ?w = "if t = ''puppeteer'' then log Script_dir w else w"
  from h obtain hs where hs: "map_of registry t = Some hs" "map_of hs a = Some h"
    by (cases "map_of registry t") (simp_all add: resolve_def)
  from route_registered[OF hs(1)] obtain handle where
    r: "route (JStr t) = Some handle"
    and all: "\<forall>act p w. (t = ''puppeteer'' \<longrightarrow> script_dir w = None) \<longrightarrow>
        handle act p w = handle_action hs act p (if t = ''puppeteer'' then log Script_dir w else w)"
    by (elim exE conjE)
  have "handle (JStr a) p w = handle_action hs (JStr a) p ?w" for p
    by (rule all[THEN spec, THEN spec, THEN spec, THEN mp, OF dir])
  then have run: "handle (JStr a) p w = h p ?w" for p
    using hs(2) by (simp add: handle_action_def)
  have names: "truthy (get d ''tool'')" "truthy (get d ''action'')"
    using resolve_names[OF h] tool act by simp_all
  have route: "route (get d ''tool'') = Some handle"
    using r tool by simp
  show ?thesis
    unfolding gateway_routed[OF names route] tool act run ..
qed

lemma first_failing_None:
  "first_failing cs ps = None \<longleftrightarrow> (\<forall>c\<in>set cs. \<forall>p\<in>set (fst c). truthy (get ps p))"
  by (auto simp: first_failing_def find_None_iff list_ex_iff)

text \<open>
  C7 (as amended). For every action whose handler checks a required parameter (the
  actions of \<open>checks_table\<close>), dispatched with a dictionary of parameters (or none): when
  a required parameter is absent or falsy, the gateway answers with the error envelope
  whose error has type \<^verbatim>\<open>ValueError\<close> and, as its message, the fixed text of the first
  check that fails (such as "Key parameter is required"), and no operation is done on a
  backend; when every required parameter is truthy, the handler goes on to its backend.
  For puppeteer this supposes that the script directory could be created. The code has
  no kind InvalidParameters.
\<close>

theorem missing_required_parameter:
  assumes tool: "get d ''tool'' = JStr t" and act: "get d ''action'' = JStr a"
    and ps: "get_default d ''parameters'' (JObj []) = JObj ps"
    and req: "required_checks t a \<noteq> []"
    and dir: "t = ''puppeteer'' \<longrightarrow> script_dir w = None"
  shows "case first_failing (required_checks t a) ps of
           Some m \<Rightarrow>
             fst (mcp_gateway (JObj d) w) = Inr (mcp_error (JStr t) (JStr a) (Exn ''ValueError'' [Lit m]))
             \<and> backend_events (snd (mcp_gateway (JObj d) w)) = backend_events w
         | None \<Rightarrow>
             length (backend_events w) < length (backend_events (snd (mcp_gateway (JObj d) w)))"
proof -
  from req have "((t, a), required_checks t a) \<in> set checks_table"
    by (cases "map_of checks_table (t, a)") (simp_all add: required_checks_def map_of_SomeD)
  from checks_table_sound[OF this] obtain h where
    h: "resolve t a = Some (on_dict h)" "checks_first h (required_checks t a)"
    by blast
  let ?w = "if t = ''puppeteer'' then log Script_dir w else w"
  have ev: "backend_events ?w = backend_events w" by simp
  have gw: "mcp_gateway (JObj d) w =
    (case h ps ?w of
       (Inr r, w') \<Rightarrow> (Inr (mcp_response (JStr t) (JStr a) r), w')
     | (Inl e, w') \<Rightarrow> (Inr (mcp_error (JStr t) (JStr a) e), w'))"
    using gateway_resolved[OF tool act h(1) dir] ps by (simp add: on_dict_def)
  then have world: "snd (mcp_gateway (JObj d) w) = snd (h ps ?w)"
    by (simp split: prod.splits sum.splits)
  show ?thesis
  proof (cases "first_failing (required_checks t a) ps")
    case None
    then have "length (backend_events ?w) < length (backend_events (snd (h ps ?w)))"
      using h(2)[unfolded checks_first_def, THEN spec, of ps, THEN spec, of ?w] by simp
    then show ?thesis using None world ev by simp
  next
    case (Some m)
    then have "h ps ?w = (Inl (Exn ''ValueError'' [Lit m]), ?w)"
      using h(2)[unfolded checks_first_def, THEN spec, of ps, THEN spec, of ?w] by simp
    then show ?thesis using Some gw ev by simp
  qed
qed

theorem missing_required_parameter_witness:
  "get [(''tool'', JStr ''memory''), (''action'', JStr ''get''), (''parameters'', JObj [(''key'', JStr [])])] ''tool''
     = JStr ''memory''
   \<and> required_checks ''memory'' ''get'' = [([''key''], ''Key parameter is required'')]
   \<and> first_failing (required_checks ''memory'' ''get'') [(''key'', JStr [])] = Some ''Key parameter is required''
   \<and> fst (mcp_gateway (JObj [(''tool'', JStr ''memory''), (''action'', JStr ''get''),
            (''parameters'', JObj [(''key'', JStr [])])]) world0)
       = Inr (mcp_error (JStr ''memory'') (JStr ''get'') (Exn ''ValueError'' [Lit ''Key parameter is required'']))
   \<and> backend_events (snd (mcp_gateway (JObj [(''tool'', JStr ''memory''), (''action'', JStr ''get''),
            (''parameters'', JObj [(''key'', JStr [])])]) world0)) = backend_events world0
   \<and> first_failing (required_checks ''memory'' ''get'') [(''key'', JStr ''k'')] = None
   \<and> length (backend_events world0)
       < length (backend_events (snd (mcp_gateway (JObj [(''tool'', JStr ''memory''), (''action'', JStr ''get''),
            (''parameters'', JObj [(''key'', JStr ''k'')])]) world0)))"
proof -
  let ?d1 = "[(''tool'', JStr ''memory''), (''action'', JStr ''get''), (''parameters'', JObj [(''key'', JStr [])])]"
  let ?d2 = "[(''tool'', JStr ''memory''), (''action'', JStr ''get''), (''parameters'', JObj [(''key'', JStr ''k'')])]"
  have rc: "required_checks ''memory'' ''get'' = [([''key''], ''Key parameter is required'')]"
    by (simp add: required_checks_def checks_table_def)
  have h1: "get ?d1 ''tool'' = JStr ''memory''" "get ?d1 ''action'' = JStr ''get''"
      "get_default ?d1 ''parameters'' (JObj []) = JObj [(''key'', JStr [])]"
    and h2: "get ?d2 ''tool'' = JStr ''memory''" "get ?d2 ''action'' = JStr ''get''"
      "get_default ?d2 ''parameters'' (JObj []) = JObj [(''key'', JStr ''k'')]"
    and h: "required_checks ''memory'' ''get'' \<noteq> []" "''memory'' = ''puppeteer'' \<longrightarrow> script_dir world0 = None"
    by (simp_all add: rc get_default_def)
  have f: "first_failing (required_checks ''memory'' ''get'') [(''key'', JStr [])] = Some ''Key parameter is required''"
    "first_failing (required_checks ''memory'' ''get'') [(''key'', JStr ''k'')] = None"
    by (simp_all add: rc first_failing_def)
  show ?thesis
    using h1(1) rc f missing_required_parameter[OF h1 h] missing_required_parameter[OF h2 h]
    by simp
qed

text \<open>A missing required parameter is reported with the error type \<^verbatim>\<open>ValueError\<close>.\<close>

theorem missing_parameter_kind_counterexample:
  "error_kind (fst (mcp_gateway (JObj [(''tool'', JStr ''memory''), (''action'', JStr ''get''),
      (''parameters'', JObj [])]) world0)) = Some ''ValueError''"
  by (simp add: mcp_gateway_def route_def Let_def get_default_def error_kind_def envelope_of_def
      memory_handle_action_def handle_action_def memory_action_handlers_def on_dict_def
      get_memory_def raise_def mcp_error_def get_def)

section \<open>Faults of the backends\<close>















section \<open>The manifest and the handler tables\<close>

lemma manifest_actions_eq:
  "manifest_actions mcp_manifest =
    [(''github'', ''listRepos''), (''github'', ''getRepo''), (''github'', ''searchRepos''),
     (''github'', ''getIssues''), (''github'', ''createIssue''),
     (''gitlab'', ''listProjects''), (''gitlab'', ''getProject''), (''gitlab'', ''searchProjects''),
     (''gmaps'', ''geocode''), (''gmaps'', ''reverseGeocode''), (''gmaps'', ''getDirections''),
     (''memory'', ''get''), (''memory'', ''set''), (''memory'', ''delete''), (''memory'', ''list''),
     (''puppeteer'', ''screenshot''), (''puppeteer'', ''pdf''), (''puppeteer'', ''extract'')]"
  by (simp add: manifest_actions_def mcp_manifest_def)

lemma registry_actions_eq:
  "registry_actions =
    [(''github'', ''listRepos''), (''github'', ''getRepo''), (''github'', ''searchRepos''),
     (''github'', ''getIssues''), (''github'', ''createIssue''),
     (''gitlab'', ''listProjects''), (''gitlab'', ''getProject''), (''gitlab'', ''searchProjects''),
     (''gitlab'', ''getIssues''), (''gitlab'', ''createIssue''), (''gitlab'', ''getPipelines''),
     (''gmaps'', ''geocode''), (''gmaps'', ''reverseGeocode''), (''gmaps'', ''getDirections''),
     (''gmaps'', ''searchPlaces''), (''gmaps'', ''getPlaceDetails''),
     (''memory'', ''get''), (''memory'', ''set''), (''memory'', ''delete''), (''memory'', ''list''),
     (''memory'', ''search''),
     (''puppeteer'', ''screenshot''), (''puppeteer'', ''pdf''), (''puppeteer'', ''extract'')]"
  by (simp add: registry_actions_def registry_def github_action_handlers_def
      gitlab_action_handlers_def gmaps_action_handlers_def memory_action_handlers_def
      puppeteer_action_handlers_def)

text \<open>
  The pairs of \<open>registry_actions\<close> are those that resolve to a handler.
\<close>

lemma resolve_registry_actions: "resolve t a \<noteq> None \<longleftrightarrow> (t, a) \<in> set registry_actions"
proof
  assume "resolve t a \<noteq> None"
  then obtain hs h where "(t, hs) \<in> set registry" "(a, h) \<in> set hs"
    by (auto simp: resolve_def split: option.splits dest: map_of_SomeD)
  then show "(t, a) \<in> set registry_actions"
    by (force simp: registry_actions_def)
next
  assume "(t, a) \<in> set registry_actions"
  then show "resolve t a \<noteq> None"
    unfolding registry_actions_eq
    by (simp only: list.set insert_iff empty_iff prod.inject)
       (elim disjE conjE FalseE; hypsubst;
        simp add: resolve_def registry_def github_action_handlers_def
          gitlab_action_handlers_def gmaps_action_handlers_def memory_action_handlers_def
          puppeteer_action_handlers_def)
qed

text \<open>
  One direction of C1 holds: every action the manifest lists resolves to a handler, and
  the manifest lists no action twice.
\<close>

lemma manifest_actions_resolve:
  "list_all (\<lambda>p. resolve (fst p) (snd p) \<noteq> None) (manifest_actions mcp_manifest)
   \<and> distinct (manifest_actions mcp_manifest)"
  by (simp add: manifest_actions_eq resolve_registry_actions registry_actions_eq del: not_None_eq)

text \<open>
  C1. The manifest and the handler tables do not agree: six actions that the gateway
  resolves to a handler are missing from the manifest returned by \<^verbatim>\<open>mcp_manifest\<close>, among
  them \<^verbatim>\<open>search\<close> of the memory tool.
\<close>

theorem manifest_omits_registered_actions:
  "filter (\<lambda>p. p \<notin> set (manifest_actions mcp_manifest)) registry_actions
     = [(''gitlab'', ''getIssues''), (''gitlab'', ''createIssue''), (''gitlab'', ''getPipelines''),
        (''gmaps'', ''searchPlaces''), (''gmaps'', ''getPlaceDetails''), (''memory'', ''search'')]
   \<and> resolve ''memory'' ''search'' = Some (on_dict search_memory)
   \<and> (''memory'', ''search'') \<notin> set (manifest_actions mcp_manifest)"
  by (simp add: manifest_actions_eq registry_actions_eq resolve_simps)

end
